theory Spec2Isabelle
  imports Main "HOL-Library.Sublist" "HOL-Library.Multiset"
begin

section \<open>JSON values and the JavaScript primitives the handlers use\<close>

text \<open>
  A parsed JSON document. Strings are byte lists (the UTF-8 form of the JavaScript
  string); an object is the list of its own enumerable properties in the order
  \<^verbatim>\<open>Object.entries\<close> reports them, each key once. Numbers are kept as integers:
  the rewriter hands numbers back as they are and no handler computes with a fractional
  one.
\<close>

datatype json =
    JNull
  | JBool bool
  | JNum int
  | JStr string
  | JArr "json list"
  | JObj "(string \<times> json) list"

type_synonym jobject = "(string \<times> json) list"

text \<open>Decimal digits: reading a run of them and writing a number.\<close>

definition is_digit :: "char \<Rightarrow> bool" where
  "is_digit c = (48 \<le> (of_char c :: nat) \<and> (of_char c :: nat) \<le> 57)"

definition digits_value :: "string \<Rightarrow> int" where
  "digits_value ds = foldl (\<lambda>acc c. 10 * acc + (int (of_char c) - 48)) 0 ds"

fun show_nat :: "nat \<Rightarrow> string" where
  "show_nat n =
     (if n < 10 then [char_of (48 + n)] else show_nat (n div 10) @ [char_of (48 + n mod 10)])"

text \<open>
  A property key is an array index when it is the decimal form of an integer from 0 to
  \<open>2^32 - 2\<close> (no sign, no leading zero): the key is what writing its value gives back.
  An object lists its array index keys first, in ascending numeric order, and its other keys
  after them in the order of their creation.
\<close>

function show_digits :: "int \<Rightarrow> string" where
  "show_digits i =
     (if i < 10 then [char_of (48 + nat i)]
      else show_digits (i div 10) @ [char_of (48 + nat (i mod 10))])"
  by pat_completeness auto
termination
  by (relation "measure nat") auto

definition array_index :: "string \<Rightarrow> int option" where
  "array_index key =
     (let i = digits_value key in
      if key \<noteq> [] \<and> list_all is_digit key \<and> i \<le> 4294967294 \<and> show_digits i = key
      then Some i else None)"

fun insert_index :: "int \<Rightarrow> string \<Rightarrow> json \<Rightarrow> jobject \<Rightarrow> jobject" where
  "insert_index n key v [] = [(key, v)]"
| "insert_index n key v ((k, w) # rest) =
     (case array_index k of
        Some m \<Rightarrow> if m < n then (k, w) # insert_index n key v rest
                  else (key, v) # (k, w) # rest
      | None \<Rightarrow> (key, v) # (k, w) # rest)"

text \<open>
  \<^verbatim>\<open>obj[key] = value\<close> on a plain object (\<^verbatim>\<open>{}\<close>): an existing own property
  keeps its position and gets the new value; a new array index key takes its numeric
  place among the array index keys; any other new key is appended. The key
  \<^verbatim>\<open>__proto__\<close> is the one exception: the assignment reaches the accessor inherited from
  \<^verbatim>\<open>Object.prototype\<close>, which sets the prototype (or does nothing for a primitive) and
  creates no own property, so neither \<^verbatim>\<open>Object.keys\<close> nor \<^verbatim>\<open>JSON.stringify\<close> see it.
\<close>

fun assign_existing :: "jobject \<Rightarrow> string \<Rightarrow> json \<Rightarrow> jobject" where
  "assign_existing [] key v = []"
| "assign_existing ((k, w) # rest) key v =
     (if k = key then (k, v) # rest else (k, w) # assign_existing rest key v)"

definition obj_set :: "jobject \<Rightarrow> string \<Rightarrow> json \<Rightarrow> jobject" where
  "obj_set obj key v =
     (if key = ''__proto__'' then obj
      else if key \<in> set (map fst obj) then assign_existing obj key v
      else (case array_index key of
              Some n \<Rightarrow> insert_index n key v obj
            | None \<Rightarrow> obj @ [(key, v)]))"

text \<open>
  The key order of an object as the engine keeps it: array index keys ascending, then the
  others; no key twice, and no own key \<^verbatim>\<open>__proto__\<close> on an object built by assignment.
\<close>

definition key_before :: "string \<Rightarrow> string \<Rightarrow> bool" where
  "key_before a b =
     (case (array_index a, array_index b) of
        (Some m, Some n) \<Rightarrow> m < n
      | (Some m, None) \<Rightarrow> True
      | (None, Some n) \<Rightarrow> False
      | (None, None) \<Rightarrow> True)"

definition key_ordered :: "jobject \<Rightarrow> bool" where
  "key_ordered obj =
     (sorted_wrt key_before (map fst obj) \<and> distinct (map fst obj)
      \<and> ''__proto__'' \<notin> set (map fst obj))"

text \<open>
  \<^verbatim>\<open>String.prototype.replace(pattern, replacement)\<close> with a string pattern replaces the
  first occurrence of the pattern, and expands the replacement template first
  (ECMAScript GetSubstitution): \<^verbatim>\<open>$$\<close> is a dollar sign, \<^verbatim>\<open>$&\<close> the matched text,
  \<^verbatim>\<open>$`\<close> the text before the match and \<^verbatim>\<open>$'\<close> the text after it. A string pattern
  has no capture groups, so \<^verbatim>\<open>$1\<close> and \<^verbatim>\<open>$<name>\<close> stay as they are.
\<close>

fun get_substitution :: "string \<Rightarrow> string \<Rightarrow> string \<Rightarrow> string \<Rightarrow> string" where
  "get_substitution matched lead rest [] = []"
| "get_substitution matched lead rest [c] = [c]"
| "get_substitution matched lead rest (c # c2 # t) =
     (if c = CHR ''$'' then
        (if c2 = CHR ''$'' then CHR ''$'' # get_substitution matched lead rest t
         else if c2 = CHR ''&'' then matched @ get_substitution matched lead rest t
         else if c2 = CHR 0x60 then lead @ get_substitution matched lead rest t
         else if c2 = CHR 0x27 then rest @ get_substitution matched lead rest t
         else c # get_substitution matched lead rest (c2 # t))
      else c # get_substitution matched lead rest (c2 # t))"

fun replace_from :: "string \<Rightarrow> string \<Rightarrow> string \<Rightarrow> string \<Rightarrow> string" where
  "replace_from lead s pat rep =
     (if prefix pat s
      then lead @ get_substitution pat lead (drop (length pat) s) rep @ drop (length pat) s
      else (case s of [] \<Rightarrow> lead | c # cs \<Rightarrow> replace_from (lead @ [c]) cs pat rep))"

definition js_replace :: "string \<Rightarrow> string \<Rightarrow> string \<Rightarrow> string" where
  "js_replace s pat rep = replace_from [] s pat rep"

section \<open>The bridge's URL rewriter (proxy-service.ts)\<close>

text \<open>
  \<^verbatim>\<open>ProxyService.rewriteUrls(data, downstreamUrl, bridgeBaseUrl, currentKey?)\<close>. The optional
  \<^verbatim>\<open>currentKey\<close> is \<open>None\<close> when the caller passes none (the top-level call and the array
  elements). \<^verbatim>\<open>data.startsWith(downstreamUrl)\<close> is \<^const>\<open>prefix\<close>.
\<close>

fun rewriteUrls :: "json \<Rightarrow> string \<Rightarrow> string \<Rightarrow> string option \<Rightarrow> json" where
  "rewriteUrls (JStr inp) downstreamUrl bridgeBaseUrl currentKey =
     (if currentKey = Some ''xid'' then JStr inp
      else if prefix downstreamUrl inp then JStr (js_replace inp downstreamUrl bridgeBaseUrl)
      else JStr inp)"
| "rewriteUrls (JArr items) downstreamUrl bridgeBaseUrl currentKey =
     JArr (map (\<lambda>item. rewriteUrls item downstreamUrl bridgeBaseUrl None) items)"
| "rewriteUrls (JObj entries) downstreamUrl bridgeBaseUrl currentKey =
     JObj (fold (\<lambda>entry rewritten.
                   obj_set rewritten (fst entry)
                     (rewriteUrls (snd entry) downstreamUrl bridgeBaseUrl (Some (fst entry))))
                entries [])"
| "rewriteUrls JNull downstreamUrl bridgeBaseUrl currentKey = JNull"
| "rewriteUrls (JBool b) downstreamUrl bridgeBaseUrl currentKey = JBool b"
| "rewriteUrls (JNum n) downstreamUrl bridgeBaseUrl currentKey = JNum n"


section \<open>JavaScript numbers, strings and arrays\<close>

text \<open>
  A JavaScript number that is an integer or \<^verbatim>\<open>NaN\<close> (\<open>None\<close>). Integers are unbounded
  here; the source's doubles agree with them below \<open>2^53\<close>. Every comparison with
  \<^verbatim>\<open>NaN\<close> is false and every sum with \<^verbatim>\<open>NaN\<close> is \<^verbatim>\<open>NaN\<close>.
\<close>

type_synonym num = "int option"

definition num_le :: "num \<Rightarrow> num \<Rightarrow> bool" where
  "num_le a b = (case (a, b) of (Some x, Some y) \<Rightarrow> x \<le> y | _ \<Rightarrow> False)"

definition num_ge :: "num \<Rightarrow> num \<Rightarrow> bool" where
  "num_ge a b = (case (a, b) of (Some x, Some y) \<Rightarrow> x \<ge> y | _ \<Rightarrow> False)"

definition num_add :: "num \<Rightarrow> num \<Rightarrow> num" where
  "num_add a b = (case (a, b) of (Some x, Some y) \<Rightarrow> Some (x + y) | _ \<Rightarrow> None)"

definition num_min :: "num \<Rightarrow> num \<Rightarrow> num" where
  "num_min a b = (case (a, b) of (Some x, Some y) \<Rightarrow> Some (min x y) | _ \<Rightarrow> None)"

text \<open>White space as \<^verbatim>\<open>parseInt\<close> and \<^verbatim>\<open>trim\<close> skip it: the ASCII controls and the
  UTF-8 forms of U+00A0, U+1680, U+2000..U+200A, U+2028, U+2029, U+202F, U+205F, U+3000
  and U+FEFF.\<close>

definition ascii_ws :: "char \<Rightarrow> bool" where
  "ascii_ws c = (of_char c \<in> {9, 10, 11, 12, 13, 32 :: nat})"

definition ws3 :: "char \<Rightarrow> char \<Rightarrow> char \<Rightarrow> bool" where
  "ws3 a b c =
     (let x = (of_char a :: nat); y = (of_char b :: nat); z = (of_char c :: nat) in
        (x = 0xE1 \<and> y = 0x9A \<and> z = 0x80)
      \<or> (x = 0xE2 \<and> y = 0x80 \<and> ((0x80 \<le> z \<and> z \<le> 0x8A) \<or> z = 0xA8 \<or> z = 0xA9 \<or> z = 0xAF))
      \<or> (x = 0xE2 \<and> y = 0x81 \<and> z = 0x9F)
      \<or> (x = 0xE3 \<and> y = 0x80 \<and> z = 0x80)
      \<or> (x = 0xEF \<and> y = 0xBB \<and> z = 0xBF))"

fun trim_start :: "string \<Rightarrow> string" where
  "trim_start [] = []"
| "trim_start (c # cs) =
     (if ascii_ws c then trim_start cs
      else (case cs of
              [] \<Rightarrow> c # cs
            | c2 # r2 \<Rightarrow>
                if of_char c = (0xC2 :: nat) \<and> of_char c2 = (0xA0 :: nat) then trim_start r2
                else (case r2 of
                        [] \<Rightarrow> c # cs
                      | c3 # r3 \<Rightarrow> if ws3 c c2 c3 then trim_start r3 else c # cs)))"

text \<open>The same from the end of the string, on the reversed bytes.\<close>

fun trim_start_rev :: "string \<Rightarrow> string" where
  "trim_start_rev [] = []"
| "trim_start_rev (c # cs) =
     (if ascii_ws c then trim_start_rev cs
      else (case cs of
              [] \<Rightarrow> c # cs
            | c2 # r2 \<Rightarrow>
                if of_char c2 = (0xC2 :: nat) \<and> of_char c = (0xA0 :: nat) then trim_start_rev r2
                else (case r2 of
                        [] \<Rightarrow> c # cs
                      | c3 # r3 \<Rightarrow> if ws3 c3 c2 c then trim_start_rev r3 else c # cs)))"

definition js_trim :: "string \<Rightarrow> string" where
  "js_trim s = rev (trim_start_rev (rev (trim_start s)))"

text \<open>
  \<^verbatim>\<open>parseInt(s, 10)\<close>: skip leading white space, read an optional sign, then the longest
  run of decimal digits; no digit gives \<^verbatim>\<open>NaN\<close>. Whatever follows the digits is ignored.
\<close>

definition js_parseInt :: "string \<Rightarrow> num" where
  "js_parseInt s =
     (let t = trim_start s;
          neg = (case t of [] \<Rightarrow> False | c # _ \<Rightarrow> c = CHR ''-'');
          u = (case t of [] \<Rightarrow> [] | c # r \<Rightarrow> if c = CHR ''-'' \<or> c = CHR ''+'' then r else t);
          ds = takeWhile is_digit u
      in if ds = [] then None
         else Some (if neg then - digits_value ds else digits_value ds))"

text \<open>\<^verbatim>\<open>req.query[k] as string || dflt\<close>: an absent or empty parameter takes the default.\<close>

definition or_default :: "string option \<Rightarrow> string \<Rightarrow> string" where
  "or_default p dflt = (case p of None \<Rightarrow> dflt | Some s \<Rightarrow> if s = [] then dflt else s)"

text \<open>A string is truthy when it is present and not empty.\<close>

definition truthy_str :: "string option \<Rightarrow> bool" where
  "truthy_str p = (case p of None \<Rightarrow> False | Some s \<Rightarrow> s \<noteq> [])"

fun js_truthy :: "json \<Rightarrow> bool" where
  "js_truthy JNull = False"
| "js_truthy (JBool b) = b"
| "js_truthy (JNum n) = (n \<noteq> 0)"
| "js_truthy (JStr s) = (s \<noteq> [])"
| "js_truthy (JArr xs) = True"
| "js_truthy (JObj kvs) = True"

definition truthy :: "json option \<Rightarrow> bool" where
  "truthy p = (case p of None \<Rightarrow> False | Some v \<Rightarrow> js_truthy v)"

text \<open>
  \<^verbatim>\<open>Array.prototype.slice(start, end)\<close>: \<^verbatim>\<open>NaN\<close> counts as 0, a negative index counts
  from the end, and both are clamped to the array.
\<close>

definition rel_index :: "nat \<Rightarrow> num \<Rightarrow> nat" where
  "rel_index len i =
     (case i of
        None \<Rightarrow> 0
      | Some k \<Rightarrow> if k < 0 then nat (max (int len + k) 0) else nat (min k (int len)))"

definition js_slice :: "'a list \<Rightarrow> num \<Rightarrow> num \<Rightarrow> 'a list" where
  "js_slice xs start fin =
     (let k = rel_index (length xs) start; e = rel_index (length xs) fin
      in take (e - k) (drop k xs))"

text \<open>\<^verbatim>\<open>Array.prototype.indexOf\<close>: the first position of the element, or -1.\<close>

fun index_from :: "int \<Rightarrow> 'a list \<Rightarrow> 'a \<Rightarrow> int" where
  "index_from i [] x = -1"
| "index_from i (y # ys) x = (if y = x then i else index_from (i + 1) ys x)"

definition js_indexOf :: "'a list \<Rightarrow> 'a \<Rightarrow> int" where
  "js_indexOf xs x = index_from 0 xs x"

text \<open>
  \<^verbatim>\<open>Array.prototype.sort(compare)\<close> is stable: with a consistent comparator the result is
  the one an insertion sort gives, where an element goes before the first later element it
  does not exceed.
\<close>

fun insert_by :: "('a \<Rightarrow> 'a \<Rightarrow> int) \<Rightarrow> 'a \<Rightarrow> 'a list \<Rightarrow> 'a list" where
  "insert_by cmp x [] = [x]"
| "insert_by cmp x (y # ys) = (if cmp x y \<le> 0 then x # y # ys else y # insert_by cmp x ys)"

fun js_sort :: "('a \<Rightarrow> 'a \<Rightarrow> int) \<Rightarrow> 'a list \<Rightarrow> 'a list" where
  "js_sort cmp [] = []"
| "js_sort cmp (x # xs) = insert_by cmp x (js_sort cmp xs)"

text \<open>\<^verbatim>\<open>String.prototype.split(sep)\<close> for a separator that is not empty.\<close>

fun split_acc :: "string \<Rightarrow> string \<Rightarrow> string \<Rightarrow> string list" where
  "split_acc sep cur [] = [cur]"
| "split_acc sep cur (c # cs) =
     (if prefix sep (c # cs) then cur # split_acc sep [] (drop (length sep - 1) cs)
      else split_acc sep (cur @ [c]) cs)"

definition js_split :: "string \<Rightarrow> string \<Rightarrow> string list" where
  "js_split s sep = split_acc sep [] s"

text \<open>\<^verbatim>\<open>String.prototype.includes\<close>.\<close>

fun js_includes :: "string \<Rightarrow> string \<Rightarrow> bool" where
  "js_includes [] sub = (sub = [])"
| "js_includes (c # cs) sub = (prefix sub (c # cs) \<or> js_includes cs sub)"

text \<open>Letter case, on the ASCII letters (the bytes of other characters are kept).\<close>

definition lower_char :: "char \<Rightarrow> char" where
  "lower_char c = (if 65 \<le> (of_char c :: nat) \<and> (of_char c :: nat) \<le> 90
                   then char_of ((of_char c :: nat) + 32) else c)"

definition upper_char :: "char \<Rightarrow> char" where
  "upper_char c = (if 97 \<le> (of_char c :: nat) \<and> (of_char c :: nat) \<le> 122
                   then char_of ((of_char c :: nat) - 32) else c)"

definition toLowerCase :: "string \<Rightarrow> string" where
  "toLowerCase s = map lower_char s"

definition toUpperCase :: "string \<Rightarrow> string" where
  "toUpperCase s = map upper_char s"

text \<open>A number inside a template string: decimal digits, or \<^verbatim>\<open>NaN\<close>.\<close>

definition show_num :: "num \<Rightarrow> string" where
  "show_num x =
     (case x of
        None \<Rightarrow> ''NaN''
      | Some i \<Rightarrow> if i < 0 then CHR ''-'' # show_nat (nat (- i)) else show_nat (nat i))"

text \<open>
  \<^verbatim>\<open>encodeURIComponent\<close>: letters, digits and \<^verbatim>\<open>- _ . ! ~ * ' ( )\<close> stay, every other
  byte of the UTF-8 form becomes \<^verbatim>\<open>%XX\<close> in upper-case hexadecimal.
\<close>

definition uri_unreserved :: "char \<Rightarrow> bool" where
  "uri_unreserved c =
     (let n = (of_char c :: nat) in
        (48 \<le> n \<and> n \<le> 57) \<or> (65 \<le> n \<and> n \<le> 90) \<or> (97 \<le> n \<and> n \<le> 122)
      \<or> c \<in> set ''-_.!~*()'' \<or> n = 0x27)"

definition hex_digit :: "nat \<Rightarrow> char" where
  "hex_digit n = (if n < 10 then char_of (48 + n) else char_of (55 + n))"

definition percent_encode :: "char \<Rightarrow> string" where
  "percent_encode c =
     [CHR ''%'', hex_digit ((of_char c :: nat) div 16), hex_digit ((of_char c :: nat) mod 16)]"

definition encodeURIComponent :: "string \<Rightarrow> string" where
  "encodeURIComponent s = concat (map (\<lambda>c. if uri_unreserved c then [c] else percent_encode c) s)"

text \<open>
  \<^verbatim>\<open>decodeURIComponent\<close>: every \<^verbatim>\<open>%XX\<close> becomes its byte, and the bytes so written
  must be well-formed UTF-8, each code point written out in escapes from its first byte
  to its last. \<open>None\<close> is the \<^verbatim>\<open>URIError\<close> thrown for a \<^verbatim>\<open>%\<close> without two
  hexadecimal digits or for bytes that are not UTF-8.
\<close>

datatype uri_token = Raw char | Esc nat

definition hex_val :: "char \<Rightarrow> nat option" where
  "hex_val c =
     (let n = (of_char c :: nat) in
      if 48 \<le> n \<and> n \<le> 57 then Some (n - 48)
      else if 65 \<le> n \<and> n \<le> 70 then Some (n - 55)
      else if 97 \<le> n \<and> n \<le> 102 then Some (n - 87)
      else None)"

fun uri_tokens :: "string \<Rightarrow> uri_token list option" where
  "uri_tokens [] = Some []"
| "uri_tokens (c # cs) =
     (if c = CHR ''%'' then
        (case cs of
           h1 # h2 # r \<Rightarrow>
             (case (hex_val h1, hex_val h2) of
                (Some a, Some b) \<Rightarrow> map_option ((#) (Esc (16 * a + b))) (uri_tokens r)
              | _ \<Rightarrow> None)
         | _ \<Rightarrow> None)
      else map_option ((#) (Raw c)) (uri_tokens cs))"

definition continuation :: "nat \<Rightarrow> bool" where
  "continuation b = (0x80 \<le> b \<and> b \<le> 0xBF)"

fun utf8_bytes :: "uri_token list \<Rightarrow> string option" where
  "utf8_bytes [] = Some []"
| "utf8_bytes (Raw c # ts) = map_option ((#) c) (utf8_bytes ts)"
| "utf8_bytes (Esc b # ts) =
     (if b < 0x80 then map_option ((#) (char_of b)) (utf8_bytes ts)
      else if 0xC2 \<le> b \<and> b \<le> 0xDF then
        (case ts of
           Esc b2 # r \<Rightarrow>
             if continuation b2
             then map_option (\<lambda>s. char_of b # char_of b2 # s) (utf8_bytes r)
             else None
         | _ \<Rightarrow> None)
      else if 0xE0 \<le> b \<and> b \<le> 0xEF then
        (case ts of
           Esc b2 # Esc b3 # r \<Rightarrow>
             if continuation b2 \<and> continuation b3
                \<and> (if b = 0xE0 then 0xA0 \<le> b2 else if b = 0xED then b2 \<le> 0x9F else True)
             then map_option (\<lambda>s. char_of b # char_of b2 # char_of b3 # s) (utf8_bytes r)
             else None
         | _ \<Rightarrow> None)
      else if 0xF0 \<le> b \<and> b \<le> 0xF4 then
        (case ts of
           Esc b2 # Esc b3 # Esc b4 # r \<Rightarrow>
             if continuation b2 \<and> continuation b3 \<and> continuation b4
                \<and> (if b = 0xF0 then 0x90 \<le> b2 else if b = 0xF4 then b2 \<le> 0x8F else True)
             then map_option (\<lambda>s. char_of b # char_of b2 # char_of b3 # char_of b4 # s)
                    (utf8_bytes r)
             else None
         | _ \<Rightarrow> None)
      else None)"

definition decodeURIComponent :: "string \<Rightarrow> string option" where
  "decodeURIComponent s = (case uri_tokens s of None \<Rightarrow> None | Some ts \<Rightarrow> utf8_bytes ts)"

section \<open>The npm facade (npm/src/server.ts): requests, responses, collaborators\<close>

record response =
  status :: int
  headers :: "(string \<times> string) list"
  body :: json

text \<open>
  What a handler reads from the Express request. \<open>baseUrl\<close> is the value of
  \<^verbatim>\<open>getBaseUrl(req)\<close>, \<open>segments\<close> the segments of the request path as sent (still
  percent-encoded, cut at the slashes, one trailing slash dropped), \<open>inline\<close> the list
  \<^verbatim>\<open>xregistryFlags.inline\<close>.
\<close>

record request =
  req_method :: string
  segments :: "string list"
  originalUrl :: string
  baseUrl :: string
  q_limit :: "string option"
  q_offset :: "string option"
  q_filter :: "string option"
  q_sort :: "string option"
  inline :: "string list"

text \<open>A call into a collaborator either throws or returns.\<close>

datatype 'a outcome = Throws | Returns 'a

text \<open>One result of the filter optimizer or of the npm search (\<^verbatim>\<open>result.package\<close>).\<close>

record package_info =
  pi_name :: "string option"
  pi_date :: "string option"
  pi_description :: "json option"
  pi_version :: "json option"

record pkg_result =
  pr_name :: "string option"
  pr_package :: "package_info option"
  pr_date :: "string option"
  pr_description :: "json option"
  pr_version :: "json option"
  pr_author :: "json option"
  pr_license :: "json option"
  pr_homepage :: "json option"
  pr_keywords :: "json option"
  pr_repository :: "json option"

text \<open>An entry of \<^verbatim>\<open>metadata.versions\<close> and the package document of the registry.\<close>

record version_entry =
  ve_description :: "json option"
  ve_deprecated :: "json option"

record metadata =
  md_versions :: "(string \<times> version_entry) list option"
  md_dist_tags :: "json option"
  md_time :: "(string \<times> string) list option"
  md_description :: "json option"
  md_homepage :: "json option"
  md_repository :: "json option"
  md_keywords :: "json option"
  md_license :: "json option"
  md_author :: "json option"
  md_maintainers :: "json option"

text \<open>What \<^verbatim>\<open>NpmService.getVersionMetadata\<close> returns.\<close>

record version_data =
  vd_versionid :: string
  vd_name :: json
  vd_createdat :: "string option"
  vd_modifiedat :: "string option"
  vd_description :: "json option"
  vd_deprecated :: "json option"
  vd_license :: "json option"
  vd_homepage :: "json option"
  vd_repository :: "json option"
  vd_bugs :: "json option"
  vd_keywords :: "json option"
  vd_dependencies :: "json option"
  vd_devDependencies :: "json option"
  vd_peerDependencies :: "json option"
  vd_dist :: "json option"

text \<open>
  The code the server calls from its other modules: the entity state
  manager, \<^verbatim>\<open>normalizePackageId\<close>, the npm service, the filter optimizer, the clock
  (\<open>nowISO\<close>, one reading of \<^verbatim>\<open>new Date().toISOString()\<close> for the whole request), and
  the built-ins \<^verbatim>\<open>localeCompare\<close> (with \<^verbatim>\<open>sensitivity: 'base'\<close>, and with
  \<^verbatim>\<open>numeric: true\<close> added) and \<^verbatim>\<open>RegExp\<close> (\<open>None\<close>: the pattern is not a regular
  expression and the constructor throws). \<open>inheritedProp f\<close> is \<^verbatim>\<open>String(o[f])\<close> for a
  property \<open>f\<close> that a plain object inherits with a truthy value (\<^verbatim>\<open>toString\<close>,
  \<^verbatim>\<open>constructor\<close>, ...), \<open>None\<close> for every other name. \<open>middleware\<close> is the chain
  installed by \<^verbatim>\<open>setupMiddleware\<close> (body parsers, CORS, logging, flag parsing): \<open>Some r\<close>
  when it answers the request itself, \<open>None\<close> when it passes the request on to the routes.
  \<open>errorHandler\<close> is the answer of the error handlers installed by
  \<^verbatim>\<open>setupErrorHandling\<close> to an error raised while routing.
  The three documents are the bodies of /health, /model and /performance/stats.
\<close>

record env =
  normalizePackageId :: "string \<Rightarrow> string"
  getEpoch :: "string \<Rightarrow> int"
  getCreatedAt :: "string \<Rightarrow> string"
  getModifiedAt :: "string \<Rightarrow> string"
  nowISO :: string
  getPackageMetadata :: "string \<Rightarrow> metadata option outcome"
  getVersionMetadata :: "string \<Rightarrow> string \<Rightarrow> version_data option outcome"
  searchPackages :: "string \<Rightarrow> num \<Rightarrow> num \<Rightarrow> pkg_result list option outcome"
  optimizedFilter :: "string \<Rightarrow> pkg_result list outcome"
  localeCompareBase :: "string \<Rightarrow> string \<Rightarrow> int"
  localeCompareNumeric :: "string \<Rightarrow> string \<Rightarrow> int"
  regexpTest :: "string \<Rightarrow> string \<Rightarrow> bool option"
  inheritedProp :: "string \<Rightarrow> string option"
  middleware :: "request \<Rightarrow> response option"
  errorHandler :: "request \<Rightarrow> response"
  healthDocument :: json
  modelDocument :: json
  statsDocument :: json

text \<open>The server's own state: the package names cache (its entries are \<^verbatim>\<open>{ name }\<close>
  objects, kept here as the names) and whether \<^verbatim>\<open>cacheLoadingPromise\<close> is set.\<close>

record server_state =
  packageNamesCache :: "string list"
  cacheLoadingPromise :: bool

text \<open>What a handler does besides answering, in order.\<close>

datatype event =
    AwaitCacheLoading
  | CallOptimizedFilter string
  | CallSearchPackages string num num
  | CallGetPackageMetadata string
  | CallGetVersionMetadata string string

definition createProblemDetails ::
  "int \<Rightarrow> string \<Rightarrow> string option \<Rightarrow> string option \<Rightarrow> json" where
  "createProblemDetails st title detail inst =
     JObj ([(''type'', JStr ''about:blank''), (''title'', JStr title), (''status'', JNum st)]
           @ (if truthy_str detail then [(''detail'', JStr (the detail))] else [])
           @ (if truthy_str inst then [(''instance'', JStr (the inst))] else []))"

definition json_response :: "int \<Rightarrow> json \<Rightarrow> response" where
  "json_response st b = \<lparr>status = st, headers = [], body = b\<rparr>"

definition registry_not_found :: "string \<Rightarrow> request \<Rightarrow> response" where
  "registry_not_found registryId req =
     json_response 404
       (createProblemDetails 404 ''Registry not found''
          (Some (''Registry '' @ [CHR 0x27] @ registryId @ [CHR 0x27] @ '' does not exist''))
          (Some (originalUrl req)))"

subsection \<open>Filtering without the index (parseFilterExpressions, matchesFilter)\<close>

record filter_expr =
  fe_field :: string
  fe_operator :: string
  fe_value :: string

definition parse_part :: "string \<Rightarrow> filter_expr list" where
  "parse_part part =
     (if js_includes part ''!='' then
        (case js_split part ''!='' of
           field # val # _ \<Rightarrow>
             if field \<noteq> [] \<and> val \<noteq> []
             then [\<lparr>fe_field = js_trim field, fe_operator = ''!='', fe_value = js_trim val\<rparr>]
             else []
         | _ \<Rightarrow> [])
      else if js_includes part ''='' then
        (case js_split part ''='' of
           field # val # _ \<Rightarrow>
             if field \<noteq> [] \<and> val \<noteq> []
             then [\<lparr>fe_field = js_trim field, fe_operator = ''='', fe_value = js_trim val\<rparr>]
             else []
         | _ \<Rightarrow> [])
      else [])"

definition parseFilterExpressions :: "string \<Rightarrow> filter_expr list" where
  "parseFilterExpressions flt = concat (map parse_part (js_split flt ''&''))"

definition wildcard_pattern :: "string \<Rightarrow> string" where
  "wildcard_pattern v = ''^'' @ concat (map (\<lambda>c. if c = CHR ''*'' then ''.*'' else [c]) v) @ ''$''"

definition matchesFilter :: "env \<Rightarrow> string \<Rightarrow> filter_expr \<Rightarrow> bool option" where
  "matchesFilter e val fe =
     (if fe_operator fe = ''='' then
        (if js_includes (fe_value fe) ''*'' then regexpTest e (wildcard_pattern (fe_value fe)) val
         else Some (toLowerCase val = toLowerCase (fe_value fe)))
      else if fe_operator fe = ''!='' then
        (if js_includes (fe_value fe) ''*''
         then map_option Not (regexpTest e (wildcard_pattern (fe_value fe)) val)
         else Some (toLowerCase val \<noteq> toLowerCase (fe_value fe)))
      else Some False)"

text \<open>\<^verbatim>\<open>objects.filter(...)\<close> with a callback that may throw: \<open>None\<close> when it does.\<close>

fun filter_objects :: "env \<Rightarrow> filter_expr \<Rightarrow> pkg_result list \<Rightarrow> pkg_result list option" where
  "filter_objects e fe [] = Some []"
| "filter_objects e fe (r # rs) =
     (case matchesFilter e
             (case pr_package r of None \<Rightarrow> [] | Some p \<Rightarrow> (case pi_name p of None \<Rightarrow> [] | Some n \<Rightarrow> n))
             fe of
        None \<Rightarrow> None
      | Some keep \<Rightarrow>
          (case filter_objects e fe rs of
             None \<Rightarrow> None
           | Some rest \<Rightarrow> Some (if keep then r # rest else rest)))"

text \<open>The loop over the filter expressions of the fallback; the \<^verbatim>\<open>catch\<close> of
  \<^verbatim>\<open>handlePackageFilter\<close> turns every exception into the empty list.\<close>

fun search_fallback ::
  "env \<Rightarrow> filter_expr list \<Rightarrow> num \<Rightarrow> num \<Rightarrow> pkg_result list \<times> event list" where
  "search_fallback e [] limit offset = ([], [])"
| "search_fallback e (fe # rest) limit offset =
     (if fe_field fe = ''name'' then
        (let searchQuery = filter (\<lambda>c. c \<noteq> CHR ''*'') (fe_value fe) in
         if searchQuery \<noteq> [] then
           (case searchPackages e searchQuery limit offset of
              Throws \<Rightarrow> ([], [CallSearchPackages searchQuery limit offset])
            | Returns None \<Rightarrow>
                (let (rs, evs) = search_fallback e rest limit offset
                 in (rs, CallSearchPackages searchQuery limit offset # evs))
            | Returns (Some objects) \<Rightarrow>
                (case filter_objects e fe objects of
                   None \<Rightarrow> ([], [CallSearchPackages searchQuery limit offset])
                 | Some kept \<Rightarrow> (kept, [CallSearchPackages searchQuery limit offset])))
         else search_fallback e rest limit offset)
      else search_fallback e rest limit offset)"

definition handlePackageFilter ::
  "env \<Rightarrow> server_state \<Rightarrow> string \<Rightarrow> num \<Rightarrow> num \<Rightarrow> pkg_result list \<times> event list" where
  "handlePackageFilter e st flt limit offset =
     (if packageNamesCache st \<noteq> [] then
        (case optimizedFilter e flt of
           Throws \<Rightarrow> ([], [CallOptimizedFilter flt])
         | Returns filteredResults \<Rightarrow>
             (js_slice filteredResults offset (num_add offset limit), [CallOptimizedFilter flt]))
      else search_fallback e (parseFilterExpressions flt) limit offset)"

subsection \<open>The packages collection (GET /noderegistries/:registryId/packages)\<close>

definition opt_field :: "string \<Rightarrow> json option \<Rightarrow> jobject" where
  "opt_field key v = (if truthy v then [(key, the v)] else [])"

text \<open>\<^verbatim>\<open>v.length > 0\<close> for an array or a string; an object counts by a numeric
  \<^verbatim>\<open>length\<close> property of its own.\<close>

fun length_positive :: "json \<Rightarrow> bool" where
  "length_positive (JArr xs) = (xs \<noteq> [])"
| "length_positive (JStr s) = (s \<noteq> [])"
| "length_positive (JObj kvs) = (case map_of kvs ''length'' of Some (JNum n) \<Rightarrow> n > 0 | _ \<Rightarrow> False)"
| "length_positive v = False"

definition package_entry :: "env \<Rightarrow> string \<Rightarrow> string \<Rightarrow> string \<Rightarrow> jobject" where
  "package_entry e base packageName created =
     [(''name'', JStr packageName),
      (''xid'', JStr (''/noderegistries/npmjs.org/packages/'' @ packageName)),
      (''self'', JStr (base @ ''/noderegistries/npmjs.org/packages/'' @ encodeURIComponent packageName)),
      (''packageid'', JStr (normalizePackageId e packageName)),
      (''epoch'', JNum 1),
      (''createdat'', JStr created),
      (''modifiedat'', JStr created)]"

text \<open>\<^verbatim>\<open>pkg.name || pkg.package?.name\<close>.\<close>

definition result_name :: "pkg_result \<Rightarrow> string option" where
  "result_name pkg =
     (if truthy_str (pr_name pkg) then pr_name pkg
      else (case pr_package pkg of None \<Rightarrow> None | Some p \<Rightarrow> pi_name p))"

definition filtered_entry :: "env \<Rightarrow> string \<Rightarrow> pkg_result \<Rightarrow> string \<Rightarrow> json" where
  "filtered_entry e base pkg packageName =
     JObj (package_entry e base packageName (or_default (pr_date pkg) (nowISO e))
           @ opt_field ''description'' (pr_description pkg)
           @ opt_field ''version'' (pr_version pkg)
           @ opt_field ''author'' (pr_author pkg)
           @ opt_field ''license'' (pr_license pkg)
           @ opt_field ''homepage'' (pr_homepage pkg)
           @ (if truthy (pr_keywords pkg) \<and> length_positive (the (pr_keywords pkg))
              then [(''keywords'', the (pr_keywords pkg))] else [])
           @ opt_field ''repository'' (pr_repository pkg))"

definition collect_filtered :: "env \<Rightarrow> string \<Rightarrow> pkg_result list \<Rightarrow> jobject" where
  "collect_filtered e base searchResults =
     fold (\<lambda>pkg packages.
             if truthy_str (result_name pkg)
             then obj_set packages (the (result_name pkg))
                    (filtered_entry e base pkg (the (result_name pkg)))
             else packages)
          searchResults []"

text \<open>The comparator of the sort path. The cache entries are \<^verbatim>\<open>{ name }\<close>, so
  \<^verbatim>\<open>a[sortField]\<close> is the name or an inherited property.\<close>

definition sort_value :: "env \<Rightarrow> string \<Rightarrow> string \<Rightarrow> string" where
  "sort_value e sortField nm =
     (if sortField = ''name'' \<or> sortField = ''packageid'' then nm
      else (case inheritedProp e sortField of Some s \<Rightarrow> s | None \<Rightarrow> nm))"

definition cache_compare :: "env \<Rightarrow> string \<Rightarrow> string \<Rightarrow> string \<Rightarrow> string \<Rightarrow> int" where
  "cache_compare e sortField sortOrder a b =
     (let comparison = localeCompareBase e (sort_value e sortField a) (sort_value e sortField b)
      in if sortOrder = ''desc'' then - comparison else comparison)"

definition sortedCache :: "env \<Rightarrow> server_state \<Rightarrow> string \<Rightarrow> string list" where
  "sortedCache e st srt =
     (let sortParts = js_split srt ''='' in
      if length sortParts = 2 \<and> sortParts ! 0 \<noteq> [] \<and> sortParts ! 1 \<noteq> []
      then js_sort (cache_compare e (sortParts ! 0) (toLowerCase (sortParts ! 1)))
             (packageNamesCache st)
      else packageNamesCache st)"

definition packageSlice :: "env \<Rightarrow> server_state \<Rightarrow> string \<Rightarrow> num \<Rightarrow> num \<Rightarrow> string list" where
  "packageSlice e st srt offset limit =
     (let sorted = sortedCache e st srt;
          startIdx = offset;
          endIdx = num_min (num_add offset limit) (Some (int (length sorted)))
      in js_slice sorted startIdx endIdx)"

definition collect_cached :: "env \<Rightarrow> string \<Rightarrow> string list \<Rightarrow> jobject" where
  "collect_cached e base slice =
     fold (\<lambda>packageName packages.
             obj_set packages packageName (JObj (package_entry e base packageName (nowISO e))))
          slice []"

definition searched_entry :: "env \<Rightarrow> string \<Rightarrow> package_info \<Rightarrow> string \<Rightarrow> json" where
  "searched_entry e base p packageName =
     JObj (package_entry e base packageName (or_default (pi_date p) (nowISO e))
           @ opt_field ''description'' (pi_description p)
           @ opt_field ''version'' (pi_version p))"

definition collect_searched :: "env \<Rightarrow> string \<Rightarrow> pkg_result list \<Rightarrow> jobject" where
  "collect_searched e base objects =
     fold (\<lambda>result packages.
             (case pr_package result of
                None \<Rightarrow> packages
              | Some p \<Rightarrow>
                  if truthy_str (pi_name p)
                  then obj_set packages (the (pi_name p)) (searched_entry e base p (the (pi_name p)))
                  else packages))
          objects []"

text \<open>The body of the \<^verbatim>\<open>try\<close> up to the pagination headers: the \<^verbatim>\<open>packages\<close> object,
  or \<open>None\<close> when the search throws (the handler's \<^verbatim>\<open>catch\<close> answers 500).\<close>

definition gather_packages ::
  "env \<Rightarrow> server_state \<Rightarrow> request \<Rightarrow> num \<Rightarrow> num \<Rightarrow> jobject option \<times> event list" where
  "gather_packages e st req limit offset =
     (if truthy_str (q_filter req) then
        (let (searchResults, evs) = handlePackageFilter e st (the (q_filter req)) limit offset
         in (Some (collect_filtered e (baseUrl req) searchResults), evs))
      else
        (let waited = (if truthy_str (q_sort req) \<and> cacheLoadingPromise st
                       then [AwaitCacheLoading] else [])
         in if truthy_str (q_sort req) \<and> packageNamesCache st \<noteq> [] then
              (Some (collect_cached e (baseUrl req)
                       (packageSlice e st (the (q_sort req)) offset limit)), waited)
            else
              (case searchPackages e ''react'' limit offset of
                 Throws \<Rightarrow> (None, waited @ [CallSearchPackages ''react'' limit offset])
               | Returns searchResults \<Rightarrow>
                   (Some (case searchResults of
                            None \<Rightarrow> []
                          | Some objects \<Rightarrow> collect_searched e (baseUrl req) objects),
                    waited @ [CallSearchPackages ''react'' limit offset]))))"

definition link_headers :: "request \<Rightarrow> num \<Rightarrow> num \<Rightarrow> jobject \<Rightarrow> (string \<times> string) list" where
  "link_headers req limit offset packages =
     (let returnedCount = Some (int (length packages));
          shouldSetLink = (if truthy_str (q_filter req) then length packages > 0
                           else num_ge returnedCount limit);
          nextOffset = num_add offset limit;
          nextUrl = baseUrl req @ ''/noderegistries/npmjs.org/packages?limit='' @ show_num limit
                    @ ''&offset='' @ show_num nextOffset
      in if shouldSetLink then
           (if truthy_str (q_filter req)
            then [(''Link'', ''<'' @ nextUrl @ ''&filter='' @ encodeURIComponent (the (q_filter req))
                             @ ''>; rel='' @ [CHR 0x22] @ ''next'' @ [CHR 0x22])]
            else [(''Link'', ''<'' @ nextUrl @ ''>; rel='' @ [CHR 0x22] @ ''next'' @ [CHR 0x22])])
         else [])"

definition packages_handler ::
  "env \<Rightarrow> server_state \<Rightarrow> string \<Rightarrow> request \<Rightarrow> response \<times> event list" where
  "packages_handler e st registryId req =
     (if registryId \<noteq> ''npmjs.org'' then (registry_not_found registryId req, [])
      else
        (let limit = js_parseInt (or_default (q_limit req) ''20'');
             offset = js_parseInt (or_default (q_offset req) ''0'')
         in if num_le limit (Some 0) then
              (json_response 400
                 (createProblemDetails 400 ''Invalid Request''
                    (Some ''The limit parameter must be greater than 0'') (Some (originalUrl req))),
               [])
            else
              (case gather_packages e st req limit offset of
                 (None, evs) \<Rightarrow>
                   (json_response 500 (JObj [(''error'', JStr ''Failed to retrieve packages'')]), evs)
               | (Some packages, evs) \<Rightarrow>
                   (\<lparr>status = 200,
                     headers = link_headers req limit offset packages,
                     body = JObj packages\<rparr>, evs))))"

subsection \<open>Registry and group documents\<close>

definition group_entry_brief :: "string \<Rightarrow> json" where
  "group_entry_brief base =
     JObj [(''npmjs.org'',
            JObj [(''name'', JStr ''npmjs.org''),
                  (''xid'', JStr ''/noderegistries/npmjs.org''),
                  (''self'', JStr (base @ ''/noderegistries/npmjs.org'')),
                  (''packagesurl'', JStr (base @ ''/noderegistries/npmjs.org/packages''))])]"

definition model_inline :: json where
  "model_inline =
     JObj [(''groups'',
        JObj [(''noderegistries'',
           JObj [(''plural'', JStr ''noderegistries''),
                 (''singular'', JStr ''noderegistry''),
                 (''resources'',
                    JObj [(''packages'',
                       JObj [(''plural'', JStr ''packages''),
                             (''singular'', JStr ''package''),
                             (''versions'',
                                JObj [(''plural'', JStr ''versions''),
                                      (''singular'', JStr ''version'')])])])])])]"

text \<open>GET /. Nothing in the \<^verbatim>\<open>try\<close> block throws in this model, so the 500 branch of
  the handler is not reached.\<close>

definition root_handler :: "env \<Rightarrow> request \<Rightarrow> response" where
  "root_handler e req =
     (let base = baseUrl req;
          registryInfo =
            [(''specversion'', JStr ''1.0-rc2''),
             (''registryid'', JStr ''npm-wrapper''),
             (''xid'', JStr ''/''),
             (''name'', JStr ''NPM Registry Service''),
             (''self'', JStr base),
             (''description'', JStr ''xRegistry-compliant NPM package registry''),
             (''documentation'', JStr ''https://docs.npmjs.com/''),
             (''epoch'', JNum (getEpoch e ''/'')),
             (''createdat'', JStr (getCreatedAt e ''/'')),
             (''modifiedat'', JStr (getModifiedAt e ''/'')),
             (''modelurl'', JStr (base @ ''/model'')),
             (''capabilitiesurl'', JStr (base @ ''/capabilities'')),
             (''noderegistriesurl'', JStr (base @ ''/noderegistries'')),
             (''noderegistriescount'', JNum 1)];
          withModel =
            (if ''*'' \<in> set (inline req) \<or> ''model'' \<in> set (inline req)
             then obj_set registryInfo ''model'' model_inline else registryInfo);
          withGroups =
            (if ''*'' \<in> set (inline req) \<or> ''endpoints'' \<in> set (inline req)
             then obj_set withModel ''endpoints'' (group_entry_brief base)
             else obj_set withModel ''noderegistries'' (group_entry_brief base))
      in \<lparr>status = 200,
          headers = [(''Content-Type'', ''application/json''), (''xRegistry-Version'', ''1.0-rc2'')],
          body = JObj withGroups\<rparr>)"

definition group_document :: "env \<Rightarrow> string \<Rightarrow> string \<Rightarrow> string \<Rightarrow> json" where
  "group_document e base registryId groupPath =
     JObj [(''noderegistryid'', JStr registryId),
           (''name'', JStr registryId),
           (''xid'', JStr groupPath),
           (''self'', JStr (base @ groupPath)),
           (''epoch'', JNum (getEpoch e groupPath)),
           (''createdat'', JStr (getCreatedAt e groupPath)),
           (''modifiedat'', JStr (getModifiedAt e groupPath)),
           (''packagesurl'', JStr (base @ groupPath @ ''/packages'')),
           (''packagescount'', JNum 2000000)]"

text \<open>GET /noderegistries.\<close>

definition groups_handler :: "env \<Rightarrow> request \<Rightarrow> response" where
  "groups_handler e req =
     json_response 200
       (JObj [(''npmjs.org'',
               group_document e (baseUrl req) ''npmjs.org'' ''/noderegistries/npmjs.org'')])"

text \<open>GET /noderegistries/:registryId.\<close>

definition group_handler :: "env \<Rightarrow> string \<Rightarrow> request \<Rightarrow> response" where
  "group_handler e registryId req =
     (if registryId \<noteq> ''npmjs.org'' then registry_not_found registryId req
      else json_response 200
             (group_document e (baseUrl req) registryId (''/noderegistries/'' @ registryId)))"

subsection \<open>Package resource and its meta view\<close>

text \<open>\<^verbatim>\<open>Object.keys(metadata.versions || {})\<close>.\<close>

definition version_keys :: "metadata \<Rightarrow> string list" where
  "version_keys md = (case md_versions md of None \<Rightarrow> [] | Some vs \<Rightarrow> map fst vs)"

text \<open>\<^verbatim>\<open>metadata['dist-tags']?.latest\<close>.\<close>

definition dist_latest :: "metadata \<Rightarrow> string option" where
  "dist_latest md =
     (case md_dist_tags md of
        Some (JObj tags) \<Rightarrow> (case map_of tags ''latest'' of Some (JStr s) \<Rightarrow> Some s | _ \<Rightarrow> None)
      | _ \<Rightarrow> None)"

definition defaultVersion :: "metadata \<Rightarrow> string" where
  "defaultVersion md =
     (if truthy_str (dist_latest md) then the (dist_latest md)
      else (case version_keys md of
              [] \<Rightarrow> ''0.0.0''
            | k # _ \<Rightarrow> if k \<noteq> [] then k else ''0.0.0''))"

definition versionsCount :: "metadata \<Rightarrow> int" where
  "versionsCount md = int (length (version_keys md))"

text \<open>\<^verbatim>\<open>metadata.time?.[k] || dflt\<close> and \<^verbatim>\<open>v || dflt\<close>.\<close>

definition time_or :: "metadata \<Rightarrow> string \<Rightarrow> string \<Rightarrow> string" where
  "time_or md k dflt =
     (case md_time md of None \<Rightarrow> dflt | Some t \<Rightarrow> or_default (map_of t k) dflt)"

definition or_json :: "json option \<Rightarrow> json \<Rightarrow> json" where
  "or_json v dflt = (if truthy v then the v else dflt)"

definition package_not_found :: "string \<Rightarrow> request \<Rightarrow> response" where
  "package_not_found packageName req =
     json_response 404
       (createProblemDetails 404 ''Package not found''
          (Some (''Package '' @ [CHR 0x27] @ packageName @ [CHR 0x27] @ '' does not exist in registry''))
          (Some (originalUrl req)))"

definition meta_fields :: "env \<Rightarrow> string \<Rightarrow> string \<Rightarrow> metadata \<Rightarrow> jobject" where
  "meta_fields e base packagePath md =
     [(''epoch'', JNum (getEpoch e packagePath)),
      (''createdat'', JStr (time_or md ''created'' (getCreatedAt e packagePath))),
      (''modifiedat'', JStr (time_or md ''modified'' (getModifiedAt e packagePath))),
      (''versionid'', JStr (defaultVersion md)),
      (''isdefault'', JBool True),
      (''metaurl'', JStr (base @ packagePath @ ''/meta'')),
      (''versionsurl'', JStr (base @ packagePath @ ''/versions'')),
      (''versionscount'', JNum (versionsCount md))]"

text \<open>GET /noderegistries/:registryId/packages/:packageName.\<close>

definition package_handler :: "env \<Rightarrow> string \<Rightarrow> string \<Rightarrow> request \<Rightarrow> response" where
  "package_handler e registryId packageName req =
     (if registryId \<noteq> ''npmjs.org'' then registry_not_found registryId req
      else
        (case getPackageMetadata e packageName of
           Throws \<Rightarrow> json_response 500 (JObj [(''error'', JStr ''Failed to retrieve package metadata'')])
         | Returns None \<Rightarrow> package_not_found packageName req
         | Returns (Some md) \<Rightarrow>
             (let base = baseUrl req;
                  packagePath = ''/noderegistries/'' @ registryId @ ''/packages/'' @ packageName
              in json_response 200
                   (JObj ([(''name'', JStr packageName),
                           (''xid'', JStr packagePath),
                           (''self'', JStr (base @ packagePath)),
                           (''packageid'', JStr (normalizePackageId e packageName))]
                          @ meta_fields e base packagePath md
                          @ [(''description'', or_json (md_description md) (JStr [])),
                             (''homepage'', or_json (md_homepage md) (JStr [])),
                             (''repository'', or_json (md_repository md) (JObj [])),
                             (''keywords'', or_json (md_keywords md) (JArr [])),
                             (''license'', or_json (md_license md) (JStr [])),
                             (''author'', or_json (md_author md) (JObj [])),
                             (''maintainers'', or_json (md_maintainers md) (JArr [])),
                             (''dist-tags'', or_json (md_dist_tags md) (JObj []))])))))"

text \<open>GET /noderegistries/:registryId/packages/:packageName/meta.\<close>

definition package_meta_handler :: "env \<Rightarrow> string \<Rightarrow> string \<Rightarrow> request \<Rightarrow> response" where
  "package_meta_handler e registryId packageName req =
     (if registryId \<noteq> ''npmjs.org'' then registry_not_found registryId req
      else
        (case getPackageMetadata e packageName of
           Throws \<Rightarrow> json_response 500 (JObj [(''error'', JStr ''Failed to retrieve package metadata'')])
         | Returns None \<Rightarrow> package_not_found packageName req
         | Returns (Some md) \<Rightarrow>
             (let base = baseUrl req;
                  packagePath = ''/noderegistries/'' @ registryId @ ''/packages/'' @ packageName
              in json_response 200
                   (JObj ([(''xid'', JStr packagePath),
                           (''self'', JStr (base @ packagePath)),
                           (''name'', JStr packageName),
                           (''packageid'', JStr (normalizePackageId e packageName))]
                          @ meta_fields e base packagePath md)))))"

subsection \<open>Versions: meta view, full view and the collection\<close>

definition registry_not_found_plain :: "string \<Rightarrow> request \<Rightarrow> response" where
  "registry_not_found_plain registryId req =
     json_response 404
       (createProblemDetails 404 ''Registry not found''
          (Some (''Registry '' @ registryId @ '' does not exist'')) (Some (originalUrl req)))"

definition version_not_found :: "string \<Rightarrow> string \<Rightarrow> request \<Rightarrow> response" where
  "version_not_found packageName version req =
     json_response 404
       (createProblemDetails 404 ''Version not found''
          (Some (''Version '' @ version @ '' of package '' @ packageName @ '' does not exist''))
          (Some (originalUrl req)))"

text \<open>\<^verbatim>\<open>Object.keys(packageMetadata?.versions || {})\<close> and
  \<^verbatim>\<open>packageMetadata?.['dist-tags']?.latest\<close> for a package document that may be null.\<close>

definition allVersions :: "metadata option \<Rightarrow> string list" where
  "allVersions packageMetadata = (case packageMetadata of None \<Rightarrow> [] | Some md \<Rightarrow> version_keys md)"

definition latest_of :: "metadata option \<Rightarrow> string option" where
  "latest_of packageMetadata = (case packageMetadata of None \<Rightarrow> None | Some md \<Rightarrow> dist_latest md)"

text \<open>The ancestor computation, the same three lines in both version handlers.\<close>

definition ancestor_of :: "metadata option \<Rightarrow> string \<Rightarrow> string" where
  "ancestor_of packageMetadata version =
     (let versions = allVersions packageMetadata;
          versionIndex = js_indexOf versions version
      in if versionIndex > 0 then versions ! nat (versionIndex - 1) else version)"

definition version_identity :: "env \<Rightarrow> string \<Rightarrow> version_data \<Rightarrow> jobject" where
  "version_identity e versionPath vd =
     [(''epoch'', JNum (getEpoch e versionPath)),
      (''createdat'', JStr (or_default (vd_createdat vd) (getCreatedAt e versionPath))),
      (''modifiedat'', JStr (or_default (vd_modifiedat vd) (getModifiedAt e versionPath)))]"

text \<open>GET /noderegistries/:registryId/packages/:packageName/versions/:version/meta.\<close>

definition version_meta_handler ::
  "env \<Rightarrow> string \<Rightarrow> string \<Rightarrow> string \<Rightarrow> request \<Rightarrow> response" where
  "version_meta_handler e registryId packageName version req =
     (if registryId \<noteq> ''npmjs.org'' then registry_not_found_plain registryId req
      else
        (case getVersionMetadata e packageName version of
           Throws \<Rightarrow> json_response 500 (JObj [(''error'', JStr ''Failed to retrieve version metadata'')])
         | Returns None \<Rightarrow> version_not_found packageName version req
         | Returns (Some vd) \<Rightarrow>
             (case getPackageMetadata e packageName of
                Throws \<Rightarrow>
                  json_response 500 (JObj [(''error'', JStr ''Failed to retrieve version metadata'')])
              | Returns packageMetadata \<Rightarrow>
                  (let base = baseUrl req;
                       versionPath = ''/noderegistries/'' @ registryId @ ''/packages/'' @ packageName
                                     @ ''/versions/'' @ version
                   in json_response 200
                        (JObj ([(''xid'', JStr versionPath),
                                (''self'', JStr (base @ versionPath)),
                                (''versionid'', JStr (vd_versionid vd)),
                                (''packageid'', JStr (normalizePackageId e packageName))]
                               @ version_identity e versionPath vd
                               @ [(''isdefault'', JBool (Some version = latest_of packageMetadata)),
                                  (''ancestor'', JStr (ancestor_of packageMetadata version))]))))))"

text \<open>GET /noderegistries/:registryId/packages/:packageName/versions/:version.\<close>

definition version_handler ::
  "env \<Rightarrow> string \<Rightarrow> string \<Rightarrow> string \<Rightarrow> request \<Rightarrow> response" where
  "version_handler e registryId packageName version req =
     (if registryId \<noteq> ''npmjs.org'' then registry_not_found_plain registryId req
      else
        (case getVersionMetadata e packageName version of
           Throws \<Rightarrow> json_response 500 (JObj [(''error'', JStr ''Failed to retrieve package version'')])
         | Returns None \<Rightarrow> version_not_found packageName version req
         | Returns (Some vd) \<Rightarrow>
             (case getPackageMetadata e packageName of
                Throws \<Rightarrow>
                  json_response 500 (JObj [(''error'', JStr ''Failed to retrieve package version'')])
              | Returns packageMetadata \<Rightarrow>
                  (let base = baseUrl req;
                       versionPath = ''/noderegistries/'' @ registryId @ ''/packages/'' @ packageName
                                     @ ''/versions/'' @ version
                   in json_response 200
                        (JObj ([(''versionid'', JStr (vd_versionid vd)),
                                (''xid'', JStr versionPath),
                                (''self'', JStr (base @ versionPath)),
                                (''name'', vd_name vd),
                                (''packageid'', JStr (normalizePackageId e packageName))]
                               @ version_identity e versionPath vd
                               @ [(''isdefault'', JBool (Some version = latest_of packageMetadata)),
                                  (''ancestor'', JStr (ancestor_of packageMetadata version)),
                                  (''description'', or_json (vd_description vd) (JStr [])),
                                  (''deprecated'', or_json (vd_deprecated vd) (JBool False)),
                                  (''contenttype'', JStr ''application/vnd.npm.install-v1+json'')]
                               @ opt_field ''license'' (vd_license vd)
                               @ opt_field ''homepage'' (vd_homepage vd)
                               @ opt_field ''repository'' (vd_repository vd)
                               @ opt_field ''bugs'' (vd_bugs vd)
                               @ opt_field ''keywords'' (vd_keywords vd)
                               @ opt_field ''dependencies'' (vd_dependencies vd)
                               @ opt_field ''devDependencies'' (vd_devDependencies vd)
                               @ opt_field ''peerDependencies'' (vd_peerDependencies vd)
                               @ opt_field ''dist'' (vd_dist vd)))))))"

text \<open>The version keys the collection shows: limited first, sorted afterwards.\<close>

definition versions_sortOrder :: "string option \<Rightarrow> string" where
  "versions_sortOrder srt =
     (let sortParts = (if truthy_str srt then js_split (the srt) ''='' else [])
      in if length sortParts = 2 \<and> sortParts ! 1 \<noteq> [] then toLowerCase (sortParts ! 1)
         else ''asc'')"

definition version_compare :: "env \<Rightarrow> string \<Rightarrow> string \<Rightarrow> string \<Rightarrow> int" where
  "version_compare e sortOrder a b =
     (let comparison = localeCompareNumeric e a b
      in if sortOrder = ''desc'' then - comparison else comparison)"

definition versionKeys :: "env \<Rightarrow> (string \<times> version_entry) list \<Rightarrow> num \<Rightarrow> string option \<Rightarrow> string list" where
  "versionKeys e versions limit srt =
     js_sort (version_compare e (versions_sortOrder srt))
       (js_slice (map fst versions) (Some 0) limit)"

definition versions_entry ::
  "env \<Rightarrow> string \<Rightarrow> string \<Rightarrow> metadata \<Rightarrow> (string \<times> version_entry) list \<Rightarrow> string \<Rightarrow> json" where
  "versions_entry e base packageName md versions versionId =
     (let versionData = map_of versions versionId;
          stamp = (case md_time md of
                     None \<Rightarrow> nowISO e
                   | Some t \<Rightarrow> if truthy_str (map_of t versionId) then the (map_of t versionId)
                               else nowISO e)
      in JObj [(''versionid'', JStr versionId),
               (''xid'', JStr (''/noderegistries/npmjs.org/packages/'' @ packageName
                               @ ''/versions/'' @ versionId)),
               (''self'', JStr (base @ ''/noderegistries/npmjs.org/packages/''
                                @ encodeURIComponent packageName @ ''/versions/''
                                @ encodeURIComponent versionId)),
               (''name'', JStr versionId),
               (''epoch'', JNum 1),
               (''createdat'', JStr stamp),
               (''modifiedat'', JStr stamp),
               (''description'',
                  (case versionData of
                     None \<Rightarrow> or_json (md_description md) (JStr [])
                   | Some vd \<Rightarrow> if truthy (ve_description vd) then the (ve_description vd)
                                else or_json (md_description md) (JStr []))),
               (''deprecated'',
                  (case versionData of
                     None \<Rightarrow> JBool False
                   | Some vd \<Rightarrow> if truthy (ve_deprecated vd) then the (ve_deprecated vd)
                                else JBool False))])"

text \<open>GET /noderegistries/:registryId/packages/:packageName/versions.\<close>

definition versions_handler :: "env \<Rightarrow> string \<Rightarrow> string \<Rightarrow> request \<Rightarrow> response" where
  "versions_handler e registryId packageName req =
     (let limit = js_parseInt (or_default (q_limit req) ''100'') in
      if registryId \<noteq> ''npmjs.org'' then registry_not_found registryId req
      else
        (case getPackageMetadata e packageName of
           Throws \<Rightarrow> json_response 500 (JObj [(''error'', JStr ''Failed to retrieve package versions'')])
         | Returns None \<Rightarrow> package_not_found packageName req
         | Returns (Some md) \<Rightarrow>
             (case md_versions md of
                None \<Rightarrow> package_not_found packageName req
              | Some versions \<Rightarrow>
                  json_response 200
                    (JObj (fold (\<lambda>versionId versionsObj.
                                   obj_set versionsObj versionId
                                     (versions_entry e (baseUrl req) packageName md versions versionId))
                                (versionKeys e versions limit (q_sort req)) [])))))"

subsection \<open>Routing of the npm facade\<close>

text \<open>
  The routes in the order \<^verbatim>\<open>setupRoutes\<close> registers them. Express matches the path
  as sent against every route, whatever the method: the literal segments without regard to
  case, a parameter against any segment that is not empty. The parameters of a route whose
  pattern matches are then decoded with \<^verbatim>\<open>decodeURIComponent\<close>; when that throws, the
  router keeps the error (\<open>RBadParam\<close>), lets no later route match, the catch-all
  included, and hands the request to the error handlers. \<^verbatim>\<open>app.get\<close> serves GET and
  HEAD.
\<close>

datatype npm_route =
    RHealth | RRoot | RCapabilities | RExport | RModel | RStats | RGroups
  | RGroup string
  | RPackages string
  | RPackage string string
  | RPackageMeta string string
  | RVersionMeta string string string
  | RVersion string string string
  | RVersions string string
  | RBadParam
  | RNone

definition seg_is :: "string \<Rightarrow> string \<Rightarrow> bool" where
  "seg_is s lit = (toLowerCase s = lit)"

definition decoded1 :: "string \<Rightarrow> (string \<Rightarrow> npm_route) \<Rightarrow> npm_route" where
  "decoded1 a k =
     (if a = [] then RNone
      else (case decodeURIComponent a of Some x \<Rightarrow> k x | None \<Rightarrow> RBadParam))"

definition decoded2 :: "string \<Rightarrow> string \<Rightarrow> (string \<Rightarrow> string \<Rightarrow> npm_route) \<Rightarrow> npm_route" where
  "decoded2 a b k =
     (if a = [] \<or> b = [] then RNone
      else (case (decodeURIComponent a, decodeURIComponent b) of
              (Some x, Some y) \<Rightarrow> k x y
            | _ \<Rightarrow> RBadParam))"

definition decoded3 ::
  "string \<Rightarrow> string \<Rightarrow> string \<Rightarrow> (string \<Rightarrow> string \<Rightarrow> string \<Rightarrow> npm_route) \<Rightarrow> npm_route" where
  "decoded3 a b c k =
     (if a = [] \<or> b = [] \<or> c = [] then RNone
      else (case (decodeURIComponent a, decodeURIComponent b, decodeURIComponent c) of
              (Some x, Some y, Some z) \<Rightarrow> k x y z
            | _ \<Rightarrow> RBadParam))"

definition npm_match :: "string list \<Rightarrow> npm_route" where
  "npm_match segs =
     (case segs of
        [] \<Rightarrow> RRoot
      | [a] \<Rightarrow>
          if seg_is a ''health'' then RHealth
          else if seg_is a ''capabilities'' then RCapabilities
          else if seg_is a ''export'' then RExport
          else if seg_is a ''model'' then RModel
          else if seg_is a ''noderegistries'' then RGroups
          else RNone
      | [a, b] \<Rightarrow>
          if seg_is a ''performance'' \<and> seg_is b ''stats'' then RStats
          else if seg_is a ''noderegistries'' then decoded1 b RGroup
          else RNone
      | [a, b, c] \<Rightarrow>
          if seg_is a ''noderegistries'' \<and> seg_is c ''packages'' then decoded1 b RPackages
          else RNone
      | [a, b, c, d] \<Rightarrow>
          if seg_is a ''noderegistries'' \<and> seg_is c ''packages'' then decoded2 b d RPackage
          else RNone
      | [a, b, c, d, f] \<Rightarrow>
          if seg_is a ''noderegistries'' \<and> seg_is c ''packages'' \<and> seg_is f ''meta''
          then decoded2 b d RPackageMeta
          else if seg_is a ''noderegistries'' \<and> seg_is c ''packages'' \<and> seg_is f ''versions''
          then decoded2 b d RVersions
          else RNone
      | [a, b, c, d, f, g] \<Rightarrow>
          if seg_is a ''noderegistries'' \<and> seg_is c ''packages'' \<and> seg_is f ''versions''
          then decoded3 b d g RVersion else RNone
      | [a, b, c, d, f, g, h] \<Rightarrow>
          if seg_is a ''noderegistries'' \<and> seg_is c ''packages'' \<and> seg_is f ''versions''
             \<and> seg_is h ''meta''
          then decoded3 b d g RVersionMeta else RNone
      | _ \<Rightarrow> RNone)"

definition capabilities_document :: json where
  "capabilities_document =
     JObj [(''apis'', JArr [JStr ''/capabilities'', JStr ''/model'', JStr ''/export'']),
           (''flags'', JArr [JStr ''inline'', JStr ''filter'', JStr ''sort'', JStr ''epoch'',
                             JStr ''noreadonly'', JStr ''schema'', JStr ''doc'']),
           (''mutable'', JBool False),
           (''pagination'', JBool True),
           (''specversions'', JArr [JStr ''1.0-rc2''])]"

text \<open>The catch-all for write methods and the 404 handler behind it.\<close>

definition write_catch_all :: "request \<Rightarrow> response" where
  "write_catch_all req =
     (let method = toUpperCase (req_method req) in
      if method \<in> set [''PUT'', ''PATCH'', ''POST'', ''DELETE''] then
        json_response 405
          (createProblemDetails 405 ''Method Not Allowed''
             (Some (''This registry is read-only. '' @ method @ '' operations are not supported.''))
             (Some (originalUrl req)))
      else
        json_response 404
          (createProblemDetails 404 ''Not Found''
             (Some (''Route '' @ req_method req @ '' '' @ originalUrl req @ '' not found''))
             (Some (originalUrl req))))"

definition npm_app :: "env \<Rightarrow> server_state \<Rightarrow> request \<Rightarrow> response \<times> server_state" where
  "npm_app e st req =
     (case middleware e req of
        Some answered \<Rightarrow> (answered, st)
      | None \<Rightarrow>
          (if req_method req = ''GET'' \<or> req_method req = ''HEAD'' then
             (case npm_match (segments req) of
                RHealth \<Rightarrow> (json_response 200 (healthDocument e), st)
              | RRoot \<Rightarrow> (root_handler e req, st)
              | RCapabilities \<Rightarrow> (json_response 200 capabilities_document, st)
              | RExport \<Rightarrow>
                  (\<lparr>status = 302,
                    headers = [(''Location'', ''/?doc&inline=*,capabilities,modelsource'')],
                    body = JNull\<rparr>, st)
              | RModel \<Rightarrow> (json_response 200 (modelDocument e), st)
              | RStats \<Rightarrow> (json_response 200 (statsDocument e), st)
              | RGroups \<Rightarrow> (groups_handler e req, st)
              | RGroup r \<Rightarrow> (group_handler e r req, st)
              | RPackages r \<Rightarrow> (fst (packages_handler e st r req), st)
              | RPackage r p \<Rightarrow> (package_handler e r p req, st)
              | RPackageMeta r p \<Rightarrow> (package_meta_handler e r p req, st)
              | RVersionMeta r p v \<Rightarrow> (version_meta_handler e r p v req, st)
              | RVersion r p v \<Rightarrow> (version_handler e r p v req, st)
              | RVersions r p \<Rightarrow> (versions_handler e r p req, st)
              | RBadParam \<Rightarrow> (errorHandler e req, st)
              | RNone \<Rightarrow> (write_catch_all req, st))
           else if npm_match (segments req) = RBadParam then (errorHandler e req, st)
           else (write_catch_all req, st)))"

section \<open>The PyPI facade (pypi/src/server.ts)\<close>

record py_request =
  py_method :: string
  py_path :: string
  py_originalUrl :: string
  py_ip :: string
  py_authorization :: "string option"

text \<open>
  The parts of the PyPI server that live in its other modules: the CORS and logging middleware
  (\<open>py_middleware\<close>) and the two routers mounted at \<^verbatim>\<open>/\<close> (\<open>py_routers\<close>), each
  \<open>Some r\<close> when the request gets its answer there (from a handler, or from the error
  handler after an error raised there, such as a route parameter that does not decode) and
  \<open>None\<close> when it calls \<^verbatim>\<open>next()\<close>; the configured
  \<^verbatim>\<open>API_KEY\<close>; and the bodies of /health and /performance/stats.
\<close>

record py_env =
  py_middleware :: "py_request \<Rightarrow> response option"
  py_routers :: "py_request \<Rightarrow> response option"
  API_KEY :: "string option"
  py_healthDocument :: json
  py_statsDocument :: json

definition unauthorized :: "string \<Rightarrow> string \<Rightarrow> py_request \<Rightarrow> response" where
  "unauthorized title detail req =
     json_response 401
       (JObj [(''type'', JStr ''https://github.com/xregistry/spec/blob/main/core/spec.md#unauthorized''),
              (''title'', JStr title),
              (''status'', JNum 401),
              (''instance'', JStr (py_originalUrl req)),
              (''detail'', JStr detail)])"

text \<open>The API key middleware: \<open>None\<close> is \<^verbatim>\<open>next()\<close>.\<close>

definition api_key_auth :: "py_env \<Rightarrow> py_request \<Rightarrow> response option" where
  "api_key_auth pe req =
     (if \<not> truthy_str (API_KEY pe) then None
      else if py_method req = ''OPTIONS'' then None
      else if py_path req = ''/model'' \<and> (py_ip req = ''127.0.0.1'' \<or> py_ip req = ''::1'') then None
      else if \<not> truthy_str (py_authorization req) then
        Some (unauthorized ''Authentication required''
                ''API key must be provided in the Authorization header'' req)
      else
        (let parts = js_split (the (py_authorization req)) '' '';
             scheme = (case parts of s # _ \<Rightarrow> s | [] \<Rightarrow> []);
             credentials = (case parts of _ # c # _ \<Rightarrow> Some c | _ \<Rightarrow> None)
         in if toLowerCase scheme \<noteq> ''bearer'' then
              Some (unauthorized ''Invalid authorization format''
                      ''Format is: Authorization: Bearer <api-key>'' req)
            else if credentials \<noteq> API_KEY pe then
              Some (unauthorized ''Invalid API key'' ''The provided API key is not valid'' req)
            else None))"

text \<open>The trailing slash handler rewrites \<^verbatim>\<open>req.url\<close>, and with it \<^verbatim>\<open>req.path\<close>.\<close>

definition strip_trailing_slash :: "py_request \<Rightarrow> py_request" where
  "strip_trailing_slash req =
     (if length (py_path req) > 1 \<and> last (py_path req) = CHR ''/''
      then req\<lparr>py_path := butlast (py_path req)\<rparr> else req)"

definition py_method_not_allowed :: "py_request \<Rightarrow> response" where
  "py_method_not_allowed req =
     json_response 405
       (JObj [(''type'', JStr ''about:blank''),
              (''title'', JStr ''Method Not Allowed''),
              (''status'', JNum 405),
              (''detail'', JStr (py_method req @ '' method not supported on '' @ py_path req)),
              (''instance'', JStr (py_path req))])"

definition py_not_found :: "py_request \<Rightarrow> response" where
  "py_not_found req =
     json_response 404
       (JObj [(''type'', JStr ''https://github.com/xregistry/spec/blob/main/core/spec.md#not-found''),
              (''title'', JStr ''Not Found''),
              (''status'', JNum 404),
              (''instance'', JStr (if py_originalUrl req \<noteq> [] then py_originalUrl req else py_path req)),
              (''detail'', JStr (''The requested resource '' @ [CHR 0x27] @ py_path req @ [CHR 0x27]
                                 @ '' was not found''))])"

definition pypi_app :: "py_env \<Rightarrow> py_request \<Rightarrow> response" where
  "pypi_app pe req0 =
     (case py_middleware pe req0 of
        Some answered \<Rightarrow> answered
      | None \<Rightarrow>
          (case api_key_auth pe req0 of
             Some refused \<Rightarrow> refused
           | None \<Rightarrow>
               (let req = strip_trailing_slash req0;
                    get = (py_method req = ''GET'' \<or> py_method req = ''HEAD'')
                in if get \<and> py_path req = ''/health'' then json_response 200 (py_healthDocument pe)
                   else
                     (case py_routers pe req of
                        Some answered \<Rightarrow> answered
                      | None \<Rightarrow>
                          if get \<and> py_path req = ''/performance/stats''
                          then json_response 200 (py_statsDocument pe)
                          else if py_method req \<in> set [''PUT'', ''PATCH'', ''POST'', ''DELETE'']
                          then py_method_not_allowed req
                          else py_not_found req))))"

section \<open>The specification's wording, and a concrete registry to run the handlers on\<close>

text \<open>
  The order of the bytes of two strings, as a comparator. On ISO-8601 UTC timestamps
  it is the order in time, and on the version and package names used below it agrees
  with \<^verbatim>\<open>localeCompare\<close>.
\<close>

fun byte_compare :: "string \<Rightarrow> string \<Rightarrow> int" where
  "byte_compare [] [] = 0"
| "byte_compare [] (y # ys) = -1"
| "byte_compare (x # xs) [] = 1"
| "byte_compare (x # xs) (y # ys) =
     (if (of_char x :: nat) < of_char y then -1
      else if (of_char y :: nat) < of_char x then 1
      else byte_compare xs ys)"

text \<open>
  The specification's ancestor: the version list of the resource in time order (by the
  \<^verbatim>\<open>time\<close> entry of each version), then the immediate predecessor of the version in that
  list, or the version itself when it is the oldest.
\<close>

definition spec_published :: "metadata \<Rightarrow> string \<Rightarrow> string" where
  "spec_published md v = (case md_time md of None \<Rightarrow> [] | Some t \<Rightarrow> (case map_of t v of None \<Rightarrow> [] | Some s \<Rightarrow> s))"

definition spec_chronological :: "metadata \<Rightarrow> string list" where
  "spec_chronological md =
     js_sort (\<lambda>a b. byte_compare (spec_published md a) (spec_published md b)) (version_keys md)"

fun spec_predecessor :: "string list \<Rightarrow> string \<Rightarrow> string" where
  "spec_predecessor (a # b # rest) v = (if b = v then a else spec_predecessor (b # rest) v)"
| "spec_predecessor other v = v"

definition spec_ancestor :: "metadata \<Rightarrow> string \<Rightarrow> string" where
  "spec_ancestor md v =
     (case spec_chronological md of
        [] \<Rightarrow> v
      | oldest # rest \<Rightarrow> if oldest = v then v else spec_predecessor (oldest # rest) v)"






text \<open>An entity document obeys the specification's rule when its \<^verbatim>\<open>self\<close> is the base
  URL followed by its \<^verbatim>\<open>xid\<close>.\<close>

definition get_prop :: "json \<Rightarrow> string \<Rightarrow> json option" where
  "get_prop doc key = (case doc of JObj kvs \<Rightarrow> map_of kvs key | _ \<Rightarrow> None)"

definition self_is_base_xid :: "string \<Rightarrow> json \<Rightarrow> bool" where
  "self_is_base_xid base doc =
     (case (get_prop doc ''self'', get_prop doc ''xid'') of
        (Some (JStr s), Some (JStr x)) \<Rightarrow> s = base @ x
      | _ \<Rightarrow> False)"

definition members :: "json \<Rightarrow> (string \<times> json) list" where
  "members doc = (case doc of JObj kvs \<Rightarrow> kvs | _ \<Rightarrow> [])"

text \<open>
  A small registry: the package \<^verbatim>\<open>demo\<close>, whose document lists version 2.0.0 before
  version 1.0.0 although 1.0.0 was published first (the scoped package \<^verbatim>\<open>@scope/pkg\<close>
  has the same document); the package \<^verbatim>\<open>many\<close> with 101
  versions; a name index of four packages; a search that honours the requested size.
\<close>

definition plain_entry :: version_entry where
  "plain_entry = \<lparr>ve_description = None, ve_deprecated = None\<rparr>"

definition demo_metadata :: metadata where
  "demo_metadata =
     \<lparr>md_versions = Some [(''2.0.0'', plain_entry), (''1.0.0'', plain_entry)],
      md_dist_tags = Some (JObj [(''latest'', JStr ''2.0.0'')]),
      md_time = Some [(''created'', ''2020-01-01T00:00:00.000Z''),
                      (''modified'', ''2021-06-01T00:00:00.000Z''),
                      (''1.0.0'', ''2020-01-01T00:00:00.000Z''),
                      (''2.0.0'', ''2021-06-01T00:00:00.000Z'')],
      md_description = Some (JStr ''a demonstration package''),
      md_homepage = None, md_repository = None, md_keywords = None, md_license = None,
      md_author = None, md_maintainers = None\<rparr>"

definition many_metadata :: metadata where
  "many_metadata =
     \<lparr>md_versions = Some (map (\<lambda>i. (''1.0.'' @ show_nat i, plain_entry)) [0..<101]),
      md_dist_tags = Some (JObj [(''latest'', JStr ''1.0.100'')]),
      md_time = None,
      md_description = None,
      md_homepage = None, md_repository = None, md_keywords = None, md_license = None,
      md_author = None, md_maintainers = None\<rparr>"

definition demo_version :: "string \<Rightarrow> version_data" where
  "demo_version v =
     \<lparr>vd_versionid = v, vd_name = JStr ''demo'', vd_createdat = None, vd_modifiedat = None,
      vd_description = None, vd_deprecated = None, vd_license = None, vd_homepage = None,
      vd_repository = None, vd_bugs = None, vd_keywords = None, vd_dependencies = None,
      vd_devDependencies = None, vd_peerDependencies = None, vd_dist = None\<rparr>"

definition named_result :: "string \<Rightarrow> pkg_result" where
  "named_result n =
     \<lparr>pr_name = Some n, pr_package = None, pr_date = None, pr_description = None,
      pr_version = None, pr_author = None, pr_license = None, pr_homepage = None,
      pr_keywords = None, pr_repository = None\<rparr>"

definition search_result :: "string \<Rightarrow> pkg_result" where
  "search_result n =
     \<lparr>pr_name = None,
      pr_package = Some \<lparr>pi_name = Some n, pi_date = None, pi_description = None, pi_version = None\<rparr>,
      pr_date = None, pr_description = None,
      pr_version = None, pr_author = None, pr_license = None, pr_homepage = None,
      pr_keywords = None, pr_repository = None\<rparr>"

definition demo_env :: env where
  "demo_env =
     \<lparr>normalizePackageId = toLowerCase,
      getEpoch = (\<lambda>path. 1),
      getCreatedAt = (\<lambda>path. ''2024-01-01T00:00:00.000Z''),
      getModifiedAt = (\<lambda>path. ''2024-01-01T00:00:00.000Z''),
      nowISO = ''2024-01-01T00:00:00.000Z'',
      getPackageMetadata =
        (\<lambda>n. if n = ''demo'' \<or> n = ''@scope/pkg'' then Returns (Some demo_metadata)
             else if n = ''many'' then Returns (Some many_metadata)
             else Returns None),
      getVersionMetadata =
        (\<lambda>n v. if n = ''demo'' \<and> (v = ''1.0.0'' \<or> v = ''2.0.0'') then Returns (Some (demo_version v))
               else Returns None),
      searchPackages =
        (\<lambda>q size from.
           Returns (Some (case size of
                            None \<Rightarrow> [search_result ''react'', search_result ''react-dom'']
                          | Some l \<Rightarrow> take (nat l) [search_result ''react'', search_result ''react-dom'']))),
      optimizedFilter =
        (\<lambda>f. if f = ''name=*p*''
             then Returns [named_result ''@scope/pkg'', named_result ''alpha'', named_result ''apple'']
             else Returns []),
      localeCompareBase = byte_compare,
      localeCompareNumeric = byte_compare,
      regexpTest = (\<lambda>pattern v. Some False),
      inheritedProp = (\<lambda>f. None),
      middleware = (\<lambda>req. None),
      errorHandler = (\<lambda>req. \<lparr>status = 400, headers = [], body = JNull\<rparr>),
      healthDocument = JNull,
      modelDocument = JNull,
      statsDocument = JNull\<rparr>"




definition demo_state :: server_state where
  "demo_state = \<lparr>packageNamesCache = [''@scope/pkg'', ''alpha'', ''apple'', ''beta''], cacheLoadingPromise = True\<rparr>"

definition demo_request :: request where
  "demo_request =
     \<lparr>req_method = ''GET'', segments = [''noderegistries'', ''npmjs.org'', ''packages''],
      originalUrl = ''/noderegistries/npmjs.org/packages'', baseUrl = ''http://localhost:3100'',
      q_limit = None, q_offset = None, q_filter = None, q_sort = None, inline = []\<rparr>"

definition demo_py_env :: py_env where
  "demo_py_env =
     \<lparr>py_middleware = (\<lambda>req. None), py_routers = (\<lambda>req. None), API_KEY = None,
      py_healthDocument = JNull, py_statsDocument = JNull\<rparr>"

definition demo_py_request :: py_request where
  "demo_py_request =
     \<lparr>py_method = ''POST'', py_path = ''/pythonregistries/pypi.org/packages'',
      py_originalUrl = ''/pythonregistries/pypi.org/packages'', py_ip = ''10.0.0.7'',
      py_authorization = None\<rparr>"
section \<open>Properties of object assignment\<close>

text \<open>
  Assigning to a key keeps the engine's key order, and assigning the entries of an object that
  is in that order, one after the other, to an empty object gives the same entries in the same
  places.
\<close>

lemma array_index_inj:
  "array_index a = Some n \<Longrightarrow> array_index b = Some n \<Longrightarrow> a = b"
  by (auto simp: array_index_def Let_def split: if_splits)

lemma key_before_trans:
  "key_before a b \<Longrightarrow> key_before b c \<Longrightarrow> key_before a c"
  by (auto simp: key_before_def split: option.splits)

lemma key_before_plain: "array_index k = None \<Longrightarrow> key_before a k"
  by (auto simp: key_before_def split: option.splits)

lemma set_insert_index: "set (insert_index n k v obj) = insert (k, v) (set obj)"
  by (induction n k v obj rule: insert_index.induct) (auto split: option.splits)

lemma mset_insert_index: "mset (insert_index n k v obj) = add_mset (k, v) (mset obj)"
  by (induction n k v obj rule: insert_index.induct) (auto split: option.splits)

lemma length_insert_index: "length (insert_index n k v obj) = Suc (length obj)"
  by (induction n k v obj rule: insert_index.induct) (auto split: option.splits)

lemma sorted_insert_index:
  "array_index k = Some n \<Longrightarrow> k \<notin> set (map fst obj) \<Longrightarrow>
   sorted_wrt key_before (map fst obj) \<Longrightarrow>
   sorted_wrt key_before (map fst (insert_index n k v obj))"
proof (induction n k v obj rule: insert_index.induct)
  case (1 n key v)
  then show ?case by simp
next
  case (2 n key v k w rest)
  show ?case
  proof (cases "array_index k")
    case None
    have "key_before key k" using None by (rule key_before_plain)
    then have "\<forall>x \<in> set (map fst rest). key_before key x"
      using "2.prems"(3) by (auto intro: key_before_trans)
    then show ?thesis using None "2.prems"(3) \<open>key_before key k\<close> by auto
  next
    case (Some m)
    show ?thesis
    proof (cases "m < n")
      case True
      have kb: "key_before k key" using Some "2.prems"(1) True by (simp add: key_before_def)
      have "sorted_wrt key_before (map fst (insert_index n key v rest))"
        using "2.IH"[OF Some True] "2.prems" by simp
      moreover have "\<forall>x \<in> set (map fst (insert_index n key v rest)). key_before k x"
        using kb "2.prems"(3) by (auto simp: set_insert_index)
      ultimately show ?thesis using Some True by simp
    next
      case False
      have "k \<noteq> key" using "2.prems"(2) by auto
      then have "m \<noteq> n" using Some "2.prems"(1) array_index_inj by blast
      then have kb: "key_before key k" using False Some "2.prems"(1) by (simp add: key_before_def)
      then have "\<forall>x \<in> set (map fst rest). key_before key x"
        using "2.prems"(3) by (auto intro: key_before_trans)
      then show ?thesis using Some False "2.prems"(3) kb by auto
    qed
  qed
qed

lemma insert_index_append:
  "array_index k = Some n \<Longrightarrow> \<forall>a \<in> set (map fst obj). key_before a k \<Longrightarrow>
   insert_index n k v obj = obj @ [(k, v)]"
  by (induction n k v obj rule: insert_index.induct)
     (auto simp: key_before_def split: option.splits)

lemma assign_existing_keys: "map fst (assign_existing obj k v) = map fst obj"
  by (induction obj k v rule: assign_existing.induct) auto

lemma assign_existing_set:
  "(k', v') \<in> set (assign_existing obj k v) \<Longrightarrow> (k', v') \<in> set obj \<or> (k' = k \<and> v' = v)"
  by (induction obj k v rule: assign_existing.induct) (auto split: if_splits)

lemma obj_set_new:
  "k \<notin> set (map fst obj) \<Longrightarrow> k \<noteq> ''__proto__'' \<Longrightarrow>
   mset (obj_set obj k v) = add_mset (k, v) (mset obj)"
  by (auto simp: obj_set_def mset_insert_index split: option.splits)

lemma set_obj_set_new:
  "k \<notin> set (map fst obj) \<Longrightarrow> k \<noteq> ''__proto__'' \<Longrightarrow>
   set (obj_set obj k v) = insert (k, v) (set obj)"
  using obj_set_new[of k obj v] by (metis set_mset_mset set_mset_add_mset_insert)

lemma obj_set_keys:
  "set (map fst (obj_set obj k v)) = (if k = ''__proto__'' then set (map fst obj) else insert k (set (map fst obj)))"
proof -
  have "set (map fst (assign_existing obj k v)) = set (map fst obj)"
    by (simp only: assign_existing_keys)
  then show ?thesis
    by (auto simp: obj_set_def set_insert_index image_iff split: option.splits)
qed

lemma obj_set_distinct: "distinct (map fst obj) \<Longrightarrow> distinct (map fst (obj_set obj k v))"
proof (cases "k \<in> set (map fst obj) \<or> k = ''__proto__''")
  case True
  then show "distinct (map fst obj) \<Longrightarrow> ?thesis" by (auto simp: obj_set_def assign_existing_keys)
next
  case False
  then have "mset (map fst (obj_set obj k v)) = add_mset k (mset (map fst obj))"
    using obj_set_new[of k obj v] by (metis (no_types, lifting) fst_conv image_mset_add_mset mset_map)
  moreover assume "distinct (map fst obj)"
  ultimately show ?thesis using False
    by (metis distinct.simps(2) mset.simps(2) mset_eq_imp_distinct_iff)
qed

lemma obj_set_no_proto:
  "''__proto__'' \<notin> fst ` set obj \<Longrightarrow> ''__proto__'' \<notin> fst ` set (obj_set obj k v)"
  using obj_set_keys[of obj k v] by (auto split: if_splits)

lemma obj_set_set:
  "(k', v') \<in> set (obj_set obj k v) \<Longrightarrow> (k', v') \<in> set obj \<or> (k' = k \<and> v' = v)"
  by (auto simp: obj_set_def set_insert_index dest: assign_existing_set split: if_splits option.splits)

lemma key_ordered_obj_set: "key_ordered obj \<Longrightarrow> key_ordered (obj_set obj k v)"
proof -
  assume ko: "key_ordered obj"
  have d: "distinct (map fst (obj_set obj k v))" using ko by (simp add: key_ordered_def obj_set_distinct)
  have p: "''__proto__'' \<notin> set (map fst (obj_set obj k v))"
    using ko obj_set_no_proto[of obj k v] by (simp add: key_ordered_def)
  have s: "sorted_wrt key_before (map fst (obj_set obj k v))"
  proof (cases "k = ''__proto__'' \<or> k \<in> set (map fst obj)")
    case True
    then show ?thesis using ko by (auto simp: obj_set_def key_ordered_def assign_existing_keys)
  next
    case False
    show ?thesis
    proof (cases "array_index k")
      case None
      then show ?thesis using False ko
        by (auto simp: obj_set_def key_ordered_def sorted_wrt_append key_before_plain)
    next
      case (Some n)
      then show ?thesis using False ko sorted_insert_index[OF Some, of obj v]
        by (auto simp: obj_set_def key_ordered_def)
    qed
  qed
  show ?thesis using d p s by (simp add: key_ordered_def)
qed

lemma key_ordered_Nil: "key_ordered []"
  by (simp add: key_ordered_def)

lemma obj_set_append:
  assumes "key_ordered (acc @ [(k, w)])"
  shows "obj_set acc k v = acc @ [(k, v)]"
proof -
  have 1: "k \<noteq> ''__proto__''" "k \<notin> set (map fst acc)" "\<forall>a \<in> set (map fst acc). key_before a k"
    using assms by (auto simp: key_ordered_def sorted_wrt_append)
  show ?thesis
  proof (cases "array_index k")
    case None
    then show ?thesis using 1 by (auto simp: obj_set_def)
  next
    case (Some n)
    then show ?thesis using 1 insert_index_append[OF Some 1(3), of v] by (auto simp: obj_set_def)
  qed
qed

lemma key_ordered_prefix: "key_ordered (xs @ ys) \<Longrightarrow> key_ordered xs"
  by (auto simp: key_ordered_def sorted_wrt_append)

lemma fold_obj_set_map:
  "key_ordered (acc @ xs) \<Longrightarrow>
   fold (\<lambda>e r. obj_set r (fst e) (f (fst e) (snd e))) xs acc
     = acc @ map (\<lambda>e. (fst e, f (fst e) (snd e))) xs"
proof (induction xs arbitrary: acc)
  case Nil
  then show ?case by simp
next
  case (Cons x xs)
  have "key_ordered (acc @ [(fst x, snd x)])"
    using Cons.prems key_ordered_prefix[of "acc @ [x]" xs] by simp
  then have st: "obj_set acc (fst x) (f (fst x) (snd x)) = acc @ [(fst x, f (fst x) (snd x))]"
    by (rule obj_set_append)
  have "map fst ((acc @ [(fst x, f (fst x) (snd x))]) @ xs) = map fst (acc @ x # xs)" by simp
  then have "key_ordered ((acc @ [(fst x, f (fst x) (snd x))]) @ xs)"
    using Cons.prems unfolding key_ordered_def by metis
  from Cons.IH[OF this] st show ?case by simp
qed

lemma fold_obj_set_id:
  "key_ordered xs \<Longrightarrow> fold (\<lambda>e r. obj_set r (fst e) (snd e)) xs [] = xs"
  using fold_obj_set_map[of "[]" xs "\<lambda>k v. v"] by simp

lemma fold_obj_set_mset:
  "distinct (map fst xs) \<Longrightarrow> ''__proto__'' \<notin> fst ` set xs \<Longrightarrow>
   fst ` set acc \<inter> fst ` set xs = {} \<Longrightarrow>
   mset (fold (\<lambda>e r. obj_set r (fst e) (f (fst e) (snd e))) xs acc)
     = mset acc + mset (map (\<lambda>e. (fst e, f (fst e) (snd e))) xs)"
proof (induction xs arbitrary: acc)
  case Nil
  then show ?case by simp
next
  case (Cons x xs)
  let ?acc = "obj_set acc (fst x) (f (fst x) (snd x))"
  have n: "fst x \<notin> set (map fst acc)" "fst x \<noteq> ''__proto__''" using Cons.prems by auto
  have m: "mset ?acc = add_mset (fst x, f (fst x) (snd x)) (mset acc)"
    using n by (rule obj_set_new)
  have "fst ` set ?acc = insert (fst x) (fst ` set acc)"
    using obj_set_keys[of acc "fst x"] n by simp
  then have "fst ` set ?acc \<inter> fst ` set xs = {}" using Cons.prems by auto
  from Cons.IH[OF _ _ this] Cons.prems m show ?case by simp
qed

lemma key_ordered_fold:
  "key_ordered acc \<Longrightarrow> key_ordered (fold (\<lambda>e r. obj_set r (fst e) (g e)) es acc)"
  by (induction es arbitrary: acc) (simp_all add: key_ordered_obj_set)

lemma fold_obj_set_set:
  "distinct (map fst xs) \<Longrightarrow> ''__proto__'' \<notin> fst ` set xs \<Longrightarrow>
   set (fold (\<lambda>e r. obj_set r (fst e) (f (fst e) (snd e))) xs [])
     = (\<lambda>e. (fst e, f (fst e) (snd e))) ` set xs"
  using fold_obj_set_mset[of xs "[]" f, THEN arg_cong, of set_mset] by simp

section \<open>Properties of the URL rewriter\<close>

lemma get_substitution_plain:
  "CHR ''$'' \<notin> set rep \<Longrightarrow> get_substitution m b a rep = rep"
  by (induction m b a rep rule: get_substitution.induct) auto

lemma js_replace_prefix:
  "prefix pat s \<Longrightarrow>
   js_replace s pat rep = get_substitution pat [] (drop (length pat) s) rep @ drop (length pat) s"
  by (simp add: js_replace_def)

lemma rewrite_str_idem:
  assumes "\<not> prefix d b" "\<not> prefix b d" "CHR ''$'' \<notin> set b"
  shows "rewriteUrls (rewriteUrls (JStr s) d b k) d b k = rewriteUrls (JStr s) d b k"
proof (cases "k \<noteq> Some ''xid'' \<and> prefix d s")
  case True
  have np: "\<not> prefix d (b @ drop (length d) s)"
    using assms(1,2) by (auto simp: prefix_append)
  show ?thesis using True np assms(3)
    by (simp add: js_replace_prefix get_substitution_plain)
next
  case False
  then show ?thesis by auto
qed

lemma fold_rewrite_invariant:
  "distinct (map fst acc) \<Longrightarrow> ''__proto__'' \<notin> fst ` set acc \<Longrightarrow>
   (\<forall>e \<in> set acc. \<exists>w. (fst e, w) \<in> set es0 \<and> snd e = f (fst e) w) \<Longrightarrow>
   set es \<subseteq> set es0 \<Longrightarrow>
   R = fold (\<lambda>e r. obj_set r (fst e) (f (fst e) (snd e))) es acc \<Longrightarrow>
   distinct (map fst R) \<and> ''__proto__'' \<notin> fst ` set R \<and>
   (\<forall>e \<in> set R. \<exists>w. (fst e, w) \<in> set es0 \<and> snd e = f (fst e) w)"
proof (induction es arbitrary: acc R)
  case Nil
  then show ?case by simp
next
  case (Cons x xs)
  let ?acc' = "obj_set acc (fst x) (f (fst x) (snd x))"
  have 1: "distinct (map fst ?acc')" using Cons.prems(1) by (rule obj_set_distinct)
  have 2: "''__proto__'' \<notin> fst ` set ?acc'" using Cons.prems(2) by (rule obj_set_no_proto)
  have 3: "\<forall>e \<in> set ?acc'. \<exists>w. (fst e, w) \<in> set es0 \<and> snd e = f (fst e) w"
  proof
    fix e assume "e \<in> set ?acc'"
    then have "(fst e, snd e) \<in> set ?acc'" by simp
    then have "(fst e, snd e) \<in> set acc \<or> (fst e = fst x \<and> snd e = f (fst x) (snd x))"
      by (rule obj_set_set)
    then show "\<exists>w. (fst e, w) \<in> set es0 \<and> snd e = f (fst e) w"
    proof
      assume "(fst e, snd e) \<in> set acc"
      then show ?thesis using Cons.prems(3) by auto
    next
      assume a: "fst e = fst x \<and> snd e = f (fst x) (snd x)"
      have "(fst x, snd x) \<in> set es0" using Cons.prems(4) by simp
      then have "(fst e, snd x) \<in> set es0 \<and> snd e = f (fst e) (snd x)" using a by simp
      then show ?thesis by (rule exI)
    qed
  qed
  have 4: "set xs \<subseteq> set es0" using Cons.prems(4) by auto
  have 5: "R = fold (\<lambda>e r. obj_set r (fst e) (f (fst e) (snd e))) xs ?acc'"
    using Cons.prems(5) by simp
  show ?case by (rule Cons.IH[OF 1 2 3 4 5])
qed

lemma rewriteUrls_idem:
  assumes "\<not> prefix d b" "\<not> prefix b d" "CHR ''$'' \<notin> set b"
  shows "rewriteUrls (rewriteUrls v d b k) d b k = rewriteUrls v d b k"
proof (induction v arbitrary: k)
  case (JStr s)
  show ?case using assms by (rule rewrite_str_idem)
next
  case (JArr items)
  then show ?case by simp
next
  case (JObj es)
  define f where "f = (\<lambda>key val. rewriteUrls val d b (Some key))"
  define R where "R = fold (\<lambda>e r. obj_set r (fst e) (f (fst e) (snd e))) es []"
  have inv: "distinct (map fst R) \<and> ''__proto__'' \<notin> fst ` set R \<and>
        (\<forall>e \<in> set R. \<exists>w. (fst e, w) \<in> set es \<and> snd e = f (fst e) w)"
    by (rule fold_rewrite_invariant[where acc="[]" and es=es and f=f]) (simp_all add: R_def)
  have fixed: "\<And>e. e \<in> set R \<Longrightarrow> f (fst e) (snd e) = snd e"
  proof -
    fix e assume "e \<in> set R"
    then obtain w where w: "(fst e, w) \<in> set es" "snd e = f (fst e) w" using inv by blast
    have "w \<in> Basic_BNFs.snds (fst e, w)" by simp
    then have "rewriteUrls (rewriteUrls w d b (Some (fst e))) d b (Some (fst e))
               = rewriteUrls w d b (Some (fst e))"
      using JObj w(1) by blast
    then show "f (fst e) (snd e) = snd e" using w(2) by (simp add: f_def)
  qed
  have ko: "key_ordered R"
    unfolding R_def by (rule key_ordered_fold) (rule key_ordered_Nil)
  have "fold (\<lambda>e r. obj_set r (fst e) (f (fst e) (snd e))) R []
        = fold (\<lambda>e r. obj_set r (fst e) (snd e)) R []"
    by (rule fold_cong) (simp_all add: fixed)
  also have "\<dots> = R" using ko by (rule fold_obj_set_id)
  finally have "fold (\<lambda>e r. obj_set r (fst e) (f (fst e) (snd e))) R [] = R" .
  then show ?case by (simp add: R_def f_def)
qed simp_all

text \<open>
  For an object whose keys are in the engine's order the loop of the rewriter keeps every
  entry in place and rewrites its value under its own key; for any object whose keys are
  distinct and do not include \<^verbatim>\<open>__proto__\<close> the result has exactly these entries.
\<close>

lemma rewriteUrls_object:
  assumes "key_ordered entries"
  shows "rewriteUrls (JObj entries) d b k
         = JObj (map (\<lambda>entry. (fst entry, rewriteUrls (snd entry) d b (Some (fst entry)))) entries)"
  using fold_obj_set_map[where acc="[]" and xs=entries
      and f="\<lambda>key v. rewriteUrls v d b (Some key)"] assms
  by simp

lemma rewriteUrls_xid_kept:
  assumes "distinct (map fst entries)" "''__proto__'' \<notin> fst ` set entries"
    and "(''xid'', JStr s) \<in> set entries"
  shows "(''xid'', JStr s) \<in> set (case rewriteUrls (JObj entries) d b k of JObj r \<Rightarrow> r | _ \<Rightarrow> [])"
proof -
  have "(''xid'', rewriteUrls (JStr s) d b (Some ''xid''))
        \<in> (\<lambda>entry. (fst entry, rewriteUrls (snd entry) d b (Some (fst entry)))) ` set entries"
    using assms(3) by force
  then show ?thesis
    using fold_obj_set_set[OF assms(1,2), of "\<lambda>key v. rewriteUrls v d b (Some key)"]
    by simp
qed

lemma rewriteUrls_prefix_replaced:
  assumes "currentKey \<noteq> Some ''xid''" "CHR ''$'' \<notin> set b"
  shows "rewriteUrls (JStr (d @ rest)) d b currentKey = JStr (b @ rest)"
  using assms by (simp add: js_replace_prefix get_substitution_plain)

text \<open>
  C9 (as amended). Rewriting a rewritten value changes nothing when neither of the two
  URLs is a prefix of the other and the bridge base URL holds no dollar sign (so that
  \<^verbatim>\<open>replace\<close> inserts it literally). The claim's own condition, that the bridge base URL
  does not begin with the upstream origin, is the first hypothesis.
\<close>

theorem C9_rewrite_idempotent:
  assumes "\<not> prefix downstreamUrl bridgeBaseUrl"
    and "\<not> prefix bridgeBaseUrl downstreamUrl"
    and "CHR ''$'' \<notin> set bridgeBaseUrl"
  shows "rewriteUrls (rewriteUrls v downstreamUrl bridgeBaseUrl None) downstreamUrl bridgeBaseUrl None
         = rewriteUrls v downstreamUrl bridgeBaseUrl None"
  using assms by (rule rewriteUrls_idem)

theorem C9_rewrite_idempotent_witness:
  "\<not> prefix ''http://npm:3100'' ''https://bridge.example''
   \<and> \<not> prefix ''https://bridge.example'' ''http://npm:3100''
   \<and> CHR ''$'' \<notin> set ''https://bridge.example''
   \<and> rewriteUrls (JObj [(''xid'', JStr ''http://npm:3100/a''), (''self'', JStr ''http://npm:3100/a'')])
        ''http://npm:3100'' ''https://bridge.example'' None
      = JObj [(''xid'', JStr ''http://npm:3100/a''), (''self'', JStr ''https://bridge.example/a'')]
   \<and> rewriteUrls (rewriteUrls (JObj [(''xid'', JStr ''http://npm:3100/a''), (''self'', JStr ''http://npm:3100/a'')])
        ''http://npm:3100'' ''https://bridge.example'' None) ''http://npm:3100'' ''https://bridge.example'' None
      = JObj [(''xid'', JStr ''http://npm:3100/a''), (''self'', JStr ''https://bridge.example/a'')]"
proof -
  have h1: "\<not> prefix ''http://npm:3100'' ''https://bridge.example''" by simp
  have h2: "\<not> prefix ''https://bridge.example'' ''http://npm:3100''" by simp
  have h3: "CHR ''$'' \<notin> set ''https://bridge.example''" by simp
  have ev: "rewriteUrls (JObj [(''xid'', JStr ''http://npm:3100/a''), (''self'', JStr ''http://npm:3100/a'')])
        ''http://npm:3100'' ''https://bridge.example'' None
      = JObj [(''xid'', JStr ''http://npm:3100/a''), (''self'', JStr ''https://bridge.example/a'')]"
    by code_simp
  show ?thesis
    using C9_rewrite_idempotent[OF h1 h2 h3,
        of "JObj [(''xid'', JStr ''http://npm:3100/a''), (''self'', JStr ''http://npm:3100/a'')]"]
      h1 h2 h3 ev
    by simp
qed

text \<open>
  C9 as stated fails: with the bridge at \<^verbatim>\<open>http://localhost\<close> and the upstream at
  \<^verbatim>\<open>http://localhost:3100\<close> the bridge base URL does not begin with the upstream origin,
  yet a second pass rewrites the string \<^verbatim>\<open>http://localhost:3100/x\<close> that the first pass
  produced from \<^verbatim>\<open>http://localhost:3100:3100/x\<close>.
\<close>

theorem C9_counterexample:
  "\<not> prefix ''http://localhost:3100'' ''http://localhost''
   \<and> rewriteUrls (JStr ''http://localhost:3100:3100/x'') ''http://localhost:3100'' ''http://localhost'' None
      = JStr ''http://localhost:3100/x''
   \<and> rewriteUrls (rewriteUrls (JStr ''http://localhost:3100:3100/x'')
                    ''http://localhost:3100'' ''http://localhost'' None)
        ''http://localhost:3100'' ''http://localhost'' None
      = JStr ''http://localhost/x''"
  by (simp add: js_replace_def)

text \<open>
  C2. The value of an \<^verbatim>\<open>xid\<close> key is returned as it is, and with a bridge base URL free
  of dollar signs every other string that begins with the upstream origin gets the new
  prefix (lemmas \<open>rewriteUrls_xid_kept\<close> and \<open>rewriteUrls_prefix_replaced\<close>). The claim
  puts no condition on the bridge base URL or on the keys, and there the code departs from
  it: \<^verbatim>\<open>replace\<close> expands \<^verbatim>\<open>$&\<close> in the bridge base URL to the matched upstream origin,
  and an entry under the key \<^verbatim>\<open>__proto__\<close> is lost together with the \<^verbatim>\<open>xid\<close> inside it.
\<close>

theorem C2_rewrite_departs:
  "rewriteUrls (JObj [(''xid'', JStr ''http://npm:3100/p''), (''self'', JStr ''http://npm:3100/p'')])
     ''http://npm:3100'' ''https://bridge.example/$&'' None
   = JObj [(''xid'', JStr ''http://npm:3100/p''),
           (''self'', JStr ''https://bridge.example/http://npm:3100/p'')]
   \<and> rewriteUrls (JObj [(''__proto__'', JObj [(''xid'', JStr ''/p'')]), (''name'', JStr ''p'')])
     ''http://npm:3100'' ''https://bridge.example'' None
   = JObj [(''name'', JStr ''p'')]"
  by code_simp

section \<open>The packages collection: validation, pagination and sorting\<close>

lemma length_assign_existing: "length (assign_existing obj k v) = length obj"
  by (induction obj k v rule: assign_existing.induct) auto

lemma length_obj_set_le: "length (obj_set obj k v) \<le> Suc (length obj)"
  by (simp add: obj_set_def length_assign_existing length_insert_index split: option.splits)

lemma length_fold_step_le:
  assumes "\<And>x acc. length (step x acc) \<le> Suc (length acc)"
  shows "length (fold step xs acc) \<le> length acc + length xs"
proof (induction xs arbitrary: acc)
  case Nil
  then show ?case by simp
next
  case (Cons x xs)
  have "length (fold step xs (step x acc)) \<le> length (step x acc) + length xs"
    by (rule Cons.IH)
  also have "\<dots> \<le> Suc (length acc) + length xs" using assms[of x acc] by simp
  finally show ?case by simp
qed




lemma length_js_slice_window:
  "0 \<le> l \<Longrightarrow> int (length (js_slice xs offset (num_add offset (Some l)))) \<le> l"
  by (cases offset) (auto simp: js_slice_def rel_index_def num_add_def Let_def)






lemma packages_handler_status:
  "status (fst (packages_handler e st ''npmjs.org'' req)) \<in> {200, 400, 500}"
  by (auto simp: packages_handler_def Let_def json_response_def split: prod.splits option.splits)

lemma packages_handler_400_iff:
  "status (fst (packages_handler e st ''npmjs.org'' req)) = 400
   \<longleftrightarrow> num_le (js_parseInt (or_default (q_limit req) ''20'')) (Some 0)"
  by (auto simp: packages_handler_def Let_def json_response_def split: prod.splits option.splits)

lemma num_le_zero_iff: "num_le x (Some 0) \<longleftrightarrow> (\<exists>l. x = Some l \<and> l \<le> 0)"
  by (cases x) (auto simp: num_le_def)

lemma gather_packages_ignores_paging [simp]:
  "gather_packages e st (req\<lparr>q_limit := x\<rparr>) limit offset = gather_packages e st req limit offset"
  "gather_packages e st (req\<lparr>q_offset := y\<rparr>) limit offset = gather_packages e st req limit offset"
  by (simp_all add: gather_packages_def Let_def cong: outcome.case_cong option.case_cong)

lemma link_headers_ignores_paging [simp]:
  "link_headers (req\<lparr>q_limit := x\<rparr>) limit offset packages = link_headers req limit offset packages"
  "link_headers (req\<lparr>q_offset := y\<rparr>) limit offset packages = link_headers req limit offset packages"
  by (simp_all add: link_headers_def Let_def)

text \<open>
  C7. On the packages collection of the registry \<^verbatim>\<open>npmjs.org\<close>, a request whose
  \<^verbatim>\<open>limit\<close> parses to a number that is 0 or less is answered with status 400 and the
  problem body (type, title, status, detail, and the request URL as instance), and no
  collaborator has been called or awaited (the event list is empty). Every request with an
  absent \<^verbatim>\<open>limit\<close> is answered exactly as the same request with \<^verbatim>\<open>limit=20\<close>, and
  every request with an absent \<^verbatim>\<open>offset\<close> exactly as the same request with
  \<^verbatim>\<open>offset=0\<close>, whatever its other parameters are.
\<close>

theorem C7_limit_validation:
  "(js_parseInt (or_default (q_limit req) ''20'') = Some l \<and> l \<le> 0 \<longrightarrow>
      packages_handler e st ''npmjs.org'' req
      = (\<lparr>status = 400, headers = [],
          body = JObj ([(''type'', JStr ''about:blank''),
                        (''title'', JStr ''Invalid Request''),
                        (''status'', JNum 400),
                        (''detail'', JStr ''The limit parameter must be greater than 0'')]
                       @ (if originalUrl req \<noteq> [] then [(''instance'', JStr (originalUrl req))]
                          else []))\<rparr>,
         []))
   \<and> packages_handler e st registryId (req\<lparr>q_limit := None\<rparr>)
     = packages_handler e st registryId (req\<lparr>q_limit := Some ''20''\<rparr>)
   \<and> packages_handler e st registryId (req\<lparr>q_offset := None\<rparr>)
     = packages_handler e st registryId (req\<lparr>q_offset := Some ''0''\<rparr>)"
proof (intro conjI impI)
  assume "js_parseInt (or_default (q_limit req) ''20'') = Some l \<and> l \<le> 0"
  then have "num_le (js_parseInt (or_default (q_limit req) ''20'')) (Some 0)"
    by (simp add: num_le_def)
  then show "packages_handler e st ''npmjs.org'' req
         = (\<lparr>status = 400, headers = [],
             body = JObj ([(''type'', JStr ''about:blank''),
                           (''title'', JStr ''Invalid Request''),
                           (''status'', JNum 400),
                           (''detail'', JStr ''The limit parameter must be greater than 0'')]
                          @ (if originalUrl req \<noteq> [] then [(''instance'', JStr (originalUrl req))]
                             else []))\<rparr>,
            [])"
    by (simp add: packages_handler_def Let_def json_response_def createProblemDetails_def
        truthy_str_def)
next
  show "packages_handler e st registryId (req\<lparr>q_limit := None\<rparr>)
         = packages_handler e st registryId (req\<lparr>q_limit := Some ''20''\<rparr>)"
    by (simp add: packages_handler_def registry_not_found_def or_default_def Let_def
        split: prod.splits option.splits)
next
  show "packages_handler e st registryId (req\<lparr>q_offset := None\<rparr>)
         = packages_handler e st registryId (req\<lparr>q_offset := Some ''0''\<rparr>)"
    by (simp add: packages_handler_def registry_not_found_def or_default_def Let_def
        split: prod.splits option.splits)
qed

lemma parse_zero: "js_parseInt ''0'' = Some 0"
  by (simp add: js_parseInt_def is_digit_def digits_value_def ascii_ws_def)

lemma parse_abc: "js_parseInt ''abc'' = None"
  by (simp add: js_parseInt_def is_digit_def digits_value_def ascii_ws_def ws3_def Let_def)

text \<open>
  The request \<^verbatim>\<open>?limit=0\<close> on the demonstration registry is refused; the served request
  \<^verbatim>\<open>?sort=name=asc&limit=2\<close>, which has no \<^verbatim>\<open>offset\<close>, gets the page that starts at
  the first name, as with \<^verbatim>\<open>offset=0\<close>; and the request \<^verbatim>\<open>?sort=name=asc\<close>, which has
  no \<^verbatim>\<open>limit\<close>, gets all four names of the index, as with \<^verbatim>\<open>limit=20\<close>.
\<close>

theorem C7_limit_validation_witness:
  "js_parseInt (or_default (q_limit (demo_request\<lparr>q_limit := Some ''0''\<rparr>)) ''20'') = Some 0
   \<and> (0::int) \<le> 0
   \<and> status (fst (packages_handler demo_env demo_state ''npmjs.org'' (demo_request\<lparr>q_limit := Some ''0''\<rparr>))) = 400
   \<and> snd (packages_handler demo_env demo_state ''npmjs.org'' (demo_request\<lparr>q_limit := Some ''0''\<rparr>)) = []
   \<and> packages_handler demo_env demo_state ''npmjs.org''
        (demo_request\<lparr>q_sort := Some ''name=asc'', q_limit := Some ''2'', q_offset := None\<rparr>)
     = packages_handler demo_env demo_state ''npmjs.org''
        (demo_request\<lparr>q_sort := Some ''name=asc'', q_limit := Some ''2'', q_offset := Some ''0''\<rparr>)
   \<and> status (fst (packages_handler demo_env demo_state ''npmjs.org''
        (demo_request\<lparr>q_sort := Some ''name=asc'', q_limit := Some ''2'', q_offset := Some ''0''\<rparr>))) = 200
   \<and> map fst (members (body (fst (packages_handler demo_env demo_state ''npmjs.org''
        (demo_request\<lparr>q_sort := Some ''name=asc'', q_limit := Some ''2'', q_offset := Some ''0''\<rparr>)))))
     = [''@scope/pkg'', ''alpha'']
   \<and> packages_handler demo_env demo_state ''npmjs.org''
        (demo_request\<lparr>q_sort := Some ''name=asc'', q_limit := None\<rparr>)
     = packages_handler demo_env demo_state ''npmjs.org''
        (demo_request\<lparr>q_sort := Some ''name=asc'', q_limit := Some ''20''\<rparr>)
   \<and> map fst (members (body (fst (packages_handler demo_env demo_state ''npmjs.org''
        (demo_request\<lparr>q_sort := Some ''name=asc'', q_limit := Some ''20''\<rparr>)))))
     = [''@scope/pkg'', ''alpha'', ''apple'', ''beta'']"
proof -
  have h: "js_parseInt (or_default (q_limit (demo_request\<lparr>q_limit := Some ''0''\<rparr>)) ''20'') = Some 0
           \<and> (0::int) \<le> 0"
    by (simp add: or_default_def parse_zero)
  have s: "status (fst (packages_handler demo_env demo_state ''npmjs.org''
        (demo_request\<lparr>q_sort := Some ''name=asc'', q_limit := Some ''2'', q_offset := Some ''0''\<rparr>))) = 200"
    by code_simp
  have k: "map fst (members (body (fst (packages_handler demo_env demo_state ''npmjs.org''
        (demo_request\<lparr>q_sort := Some ''name=asc'', q_limit := Some ''2'', q_offset := Some ''0''\<rparr>)))))
     = [''@scope/pkg'', ''alpha'']"
    by code_simp
  have k2: "map fst (members (body (fst (packages_handler demo_env demo_state ''npmjs.org''
        (demo_request\<lparr>q_sort := Some ''name=asc'', q_limit := Some ''20''\<rparr>)))))
     = [''@scope/pkg'', ''alpha'', ''apple'', ''beta'']"
    by code_simp
  note t = C7_limit_validation[of "demo_request\<lparr>q_limit := Some ''0''\<rparr>" 0 demo_env demo_state]
  note u = C7_limit_validation[of "demo_request\<lparr>q_sort := Some ''name=asc'', q_limit := Some ''2''\<rparr>" 0
             demo_env demo_state "''npmjs.org''"]
  note v = C7_limit_validation[of "demo_request\<lparr>q_sort := Some ''name=asc''\<rparr>" 0
             demo_env demo_state "''npmjs.org''"]
  have a: "packages_handler demo_env demo_state ''npmjs.org'' (demo_request\<lparr>q_limit := Some ''0''\<rparr>)
           = (\<lparr>status = 400, headers = [],
               body = JObj ([(''type'', JStr ''about:blank''),
                        (''title'', JStr ''Invalid Request''),
                        (''status'', JNum 400),
                        (''detail'', JStr ''The limit parameter must be greater than 0'')]
                       @ (if originalUrl (demo_request\<lparr>q_limit := Some ''0''\<rparr>) \<noteq> []
                          then [(''instance'', JStr (originalUrl (demo_request\<lparr>q_limit := Some ''0''\<rparr>)))]
                          else []))\<rparr>, [])"
    by (rule t[THEN conjunct1, THEN mp, OF h])
  have b: "packages_handler demo_env demo_state ''npmjs.org''
        (demo_request\<lparr>q_sort := Some ''name=asc'', q_limit := Some ''2'', q_offset := None\<rparr>)
     = packages_handler demo_env demo_state ''npmjs.org''
        (demo_request\<lparr>q_sort := Some ''name=asc'', q_limit := Some ''2'', q_offset := Some ''0''\<rparr>)"
    using u[THEN conjunct2, THEN conjunct2] by simp
  have c: "packages_handler demo_env demo_state ''npmjs.org''
        (demo_request\<lparr>q_sort := Some ''name=asc'', q_limit := None\<rparr>)
     = packages_handler demo_env demo_state ''npmjs.org''
        (demo_request\<lparr>q_sort := Some ''name=asc'', q_limit := Some ''20''\<rparr>)"
    using v[THEN conjunct2, THEN conjunct1] by simp
  show ?thesis
    unfolding a using h s k k2 b c by simp
qed

text \<open>
  C10. \<^verbatim>\<open>parseInt('abc', 10)\<close> is \<^verbatim>\<open>NaN\<close>; the handler answers 400 exactly when the
  limit parses to a number that is 0 or less; and with a limit that parses to \<^verbatim>\<open>NaN\<close>
  it goes on to gather the packages with that limit and answers 200 (or 500 when the
  search throws), never 400.
\<close>

theorem C10_non_numeric_limit:
  "js_parseInt ''abc'' = None
   \<and> (status (fst (packages_handler e st ''npmjs.org'' req)) = 400
        \<longleftrightarrow> (\<exists>l. js_parseInt (or_default (q_limit req) ''20'') = Some l \<and> l \<le> 0))
   \<and> (js_parseInt (or_default (q_limit req) ''20'') = None \<longrightarrow>
        packages_handler e st ''npmjs.org'' req
        = (case gather_packages e st req None (js_parseInt (or_default (q_offset req) ''0'')) of
             (None, evs) \<Rightarrow>
               (json_response 500 (JObj [(''error'', JStr ''Failed to retrieve packages'')]), evs)
           | (Some packages, evs) \<Rightarrow>
               (\<lparr>status = 200,
                 headers = link_headers req None (js_parseInt (or_default (q_offset req) ''0'')) packages,
                 body = JObj packages\<rparr>, evs)))"
proof (intro conjI)
  show "js_parseInt ''abc'' = None" by (rule parse_abc)
next
  show "status (fst (packages_handler e st ''npmjs.org'' req)) = 400
        \<longleftrightarrow> (\<exists>l. js_parseInt (or_default (q_limit req) ''20'') = Some l \<and> l \<le> 0)"
    by (simp add: packages_handler_400_iff num_le_zero_iff)
next
  show "js_parseInt (or_default (q_limit req) ''20'') = None \<longrightarrow>
        packages_handler e st ''npmjs.org'' req
        = (case gather_packages e st req None (js_parseInt (or_default (q_offset req) ''0'')) of
             (None, evs) \<Rightarrow>
               (json_response 500 (JObj [(''error'', JStr ''Failed to retrieve packages'')]), evs)
           | (Some packages, evs) \<Rightarrow>
               (\<lparr>status = 200,
                 headers = link_headers req None (js_parseInt (or_default (q_offset req) ''0'')) packages,
                 body = JObj packages\<rparr>, evs))"
    by (simp add: packages_handler_def num_le_def Let_def)
qed

text \<open>The request \<^verbatim>\<open>?limit=abc&sort=name=asc\<close>: status 200 and an empty page.\<close>

theorem C10_non_numeric_limit_witness:
  "js_parseInt (or_default (q_limit (demo_request\<lparr>q_limit := Some ''abc'', q_sort := Some ''name=asc''\<rparr>)) ''20'') = None
   \<and> packages_handler demo_env demo_state ''npmjs.org''
        (demo_request\<lparr>q_limit := Some ''abc'', q_sort := Some ''name=asc''\<rparr>)
      = (\<lparr>status = 200, headers = [], body = JObj []\<rparr>, [AwaitCacheLoading])"
proof -
  have h: "js_parseInt (or_default (q_limit (demo_request\<lparr>q_limit := Some ''abc'', q_sort := Some ''name=asc''\<rparr>)) ''20'') = None"
    by (simp add: or_default_def parse_abc)
  have g: "gather_packages demo_env demo_state
             (demo_request\<lparr>q_limit := Some ''abc'', q_sort := Some ''name=asc''\<rparr>) None
             (js_parseInt (or_default (q_offset (demo_request\<lparr>q_limit := Some ''abc'', q_sort := Some ''name=asc''\<rparr>)) ''0''))
           = (Some [], [AwaitCacheLoading])"
    by code_simp
  have lh: "link_headers (demo_request\<lparr>q_limit := Some ''abc'', q_sort := Some ''name=asc''\<rparr>) None
             (js_parseInt (or_default (q_offset (demo_request\<lparr>q_limit := Some ''abc'', q_sort := Some ''name=asc''\<rparr>)) ''0'')) []
            = []"
    by code_simp
  show ?thesis
    using C10_non_numeric_limit[of demo_env demo_state
        "demo_request\<lparr>q_limit := Some ''abc'', q_sort := Some ''name=asc''\<rparr>"] h g lh
    by simp
qed

lemma packages_handler_200D:
  assumes "status (fst (packages_handler e st ''npmjs.org'' req)) = 200"
  shows "\<not> num_le (js_parseInt (or_default (q_limit req) ''20'')) (Some 0)
       \<and> (\<exists>packages evs.
            gather_packages e st req (js_parseInt (or_default (q_limit req) ''20''))
               (js_parseInt (or_default (q_offset req) ''0'')) = (Some packages, evs)
          \<and> fst (packages_handler e st ''npmjs.org'' req)
            = \<lparr>status = 200,
               headers = link_headers req (js_parseInt (or_default (q_limit req) ''20''))
                           (js_parseInt (or_default (q_offset req) ''0'')) packages,
               body = JObj packages\<rparr>)"
  using assms
  by (auto simp: packages_handler_def Let_def json_response_def split: prod.splits option.splits if_splits)












lemma mset_insert_by: "mset (insert_by cmp x ys) = add_mset x (mset ys)"
  by (induction ys) auto

lemma mset_js_sort: "mset (js_sort cmp xs) = mset xs"
  by (induction xs) (auto simp: mset_insert_by)




lemma js_slice_contiguous: "\<exists>k n. js_slice xs a b = take n (drop k xs)"
  unfolding js_slice_def Let_def by blast

lemma mset_sortedCache: "mset (sortedCache e st srt) = mset (packageNamesCache st)"
  by (simp add: sortedCache_def Let_def mset_js_sort)










section \<open>Version counts\<close>

lemma length_js_sort: "length (js_sort cmp xs) = length xs"
  using mset_js_sort[of cmp xs] by (metis size_mset)

lemma set_js_sort: "set (js_sort cmp xs) = set xs"
  using mset_js_sort[of cmp xs] by (metis set_mset_mset)

lemma distinct_js_sort: "distinct (js_sort cmp xs) = distinct xs"
  using mset_js_sort[of cmp xs] by (metis mset_eq_imp_distinct_iff)

lemma fold_obj_set_keys:
  "distinct ks \<Longrightarrow> ''__proto__'' \<notin> set ks \<Longrightarrow> fst ` set acc \<inter> set ks = {} \<Longrightarrow>
   mset (map fst (fold (\<lambda>k r. obj_set r k (g k)) ks acc)) = mset (map fst acc) + mset ks"
proof (induction ks arbitrary: acc)
  case Nil
  then show ?case by simp
next
  case (Cons k ks)
  have n: "k \<notin> set (map fst acc)" "k \<noteq> ''__proto__''" using Cons.prems by auto
  have m: "mset (map fst (obj_set acc k (g k))) = add_mset k (mset (map fst acc))"
    using obj_set_new[OF n, of "g k"] by (metis fst_conv image_mset_add_mset mset_map)
  have "fst ` set (obj_set acc k (g k)) = insert k (fst ` set acc)"
    using obj_set_keys[of acc k "g k"] n by simp
  then have "fst ` set (obj_set acc k (g k)) \<inter> set ks = {}" using Cons.prems by auto
  from Cons.IH[OF _ _ this] Cons.prems m show ?case by simp
qed

lemma set_js_slice: "set (js_slice xs a b) \<subseteq> set xs"
  unfolding js_slice_def Let_def
  by (meson set_take_subset set_drop_subset subset_trans)

lemma distinct_js_slice: "distinct xs \<Longrightarrow> distinct (js_slice xs a b)"
  by (simp add: js_slice_def Let_def)

lemma versions_handler_body:
  assumes "getPackageMetadata e p = Returns (Some md)" and "md_versions md = Some versions"
  shows "body (versions_handler e ''npmjs.org'' p req)
         = JObj (fold (\<lambda>versionId versionsObj.
                         obj_set versionsObj versionId
                           (versions_entry e (baseUrl req) p md versions versionId))
                      (versionKeys e versions (js_parseInt (or_default (q_limit req) ''100'')) (q_sort req))
                      [])"
  using assms by (simp add: versions_handler_def json_response_def Let_def)

lemma versions_entries_le:
  assumes "getPackageMetadata e p = Returns (Some md)" and "md_versions md = Some versions"
  shows "length (members (body (versions_handler e ''npmjs.org'' p req)))
         \<le> length (js_slice (map fst versions) (Some 0) (js_parseInt (or_default (q_limit req) ''100'')))"
proof -
  let ?keys = "versionKeys e versions (js_parseInt (or_default (q_limit req) ''100'')) (q_sort req)"
  have "length (fold (\<lambda>versionId versionsObj.
                         obj_set versionsObj versionId
                           (versions_entry e (baseUrl req) p md versions versionId)) ?keys [])
        \<le> length ([] :: jobject) + length ?keys"
    by (rule length_fold_step_le) (rule length_obj_set_le)
  then show ?thesis
    by (simp add: versions_handler_body[OF assms] members_def versionKeys_def length_js_sort)
qed

lemma versions_entries_exact:
  assumes "getPackageMetadata e p = Returns (Some md)" and "md_versions md = Some versions"
    and "distinct (map fst versions)" and "''__proto__'' \<notin> set (map fst versions)"
  shows "mset (map fst (members (body (versions_handler e ''npmjs.org'' p req))))
         = mset (js_slice (map fst versions) (Some 0) (js_parseInt (or_default (q_limit req) ''100'')))"
proof -
  let ?keys = "versionKeys e versions (js_parseInt (or_default (q_limit req) ''100'')) (q_sort req)"
  have sub: "set ?keys \<subseteq> set (map fst versions)"
    using set_js_slice[of "map fst versions"] by (simp add: versionKeys_def set_js_sort)
  have d: "distinct ?keys"
    using assms(3) by (simp add: versionKeys_def distinct_js_sort distinct_js_slice)
  have n: "''__proto__'' \<notin> set ?keys" using sub assms(4) by blast
  have "mset (map fst (members (body (versions_handler e ''npmjs.org'' p req)))) = mset ?keys"
    using fold_obj_set_keys[OF d n, of "[]"
        "\<lambda>versionId. versions_entry e (baseUrl req) p md versions versionId"]
    by (simp add: versions_handler_body[OF assms(1,2)] members_def)
  then show ?thesis by (simp add: versionKeys_def mset_js_sort)
qed

lemma js_slice_from_start:
  "js_slice xs (Some 0) limit
   = (case limit of
        None \<Rightarrow> []
      | Some l \<Rightarrow> if 0 \<le> l then take (nat l) xs else take (length xs - nat (- l)) xs)"
proof (cases limit)
  case None
  then show ?thesis by (simp add: js_slice_def rel_index_def)
next
  case (Some l)
  have "nat (max (int (length xs) + l) 0) = length xs - nat (- l)" if "l < 0"
    using that by (simp add: max_def) linarith
  then show ?thesis using Some
    by (auto simp: js_slice_def rel_index_def Let_def min_def)
qed

lemma js_slice_all: "int (length xs) \<le> l \<Longrightarrow> js_slice xs (Some 0) (Some l) = xs"
  by (simp add: js_slice_def rel_index_def Let_def)

lemma package_versionscount:
  assumes "getPackageMetadata e p = Returns (Some md)"
  shows "get_prop (body (package_handler e ''npmjs.org'' p req)) ''versionscount''
         = Some (JNum (versionsCount md))"
    and "get_prop (body (package_meta_handler e ''npmjs.org'' p req)) ''versionscount''
         = Some (JNum (versionsCount md))"
  using assms
  by (simp_all add: package_handler_def package_meta_handler_def json_response_def Let_def
      get_prop_def meta_fields_def)

text \<open>
  C4 (as amended). For a package the registry knows, whose document has a versions map:
  \<^verbatim>\<open>versionscount\<close> on the resource and on its meta view is the number of versions. When
  the version ids are distinct, as the keys of an object are, and none of them is
  \<^verbatim>\<open>__proto__\<close>, the versions endpoint answers 200 with exactly one entry for each of the
  ids \<^verbatim>\<open>Object.keys(versions).slice(0, limit)\<close>, where \<^verbatim>\<open>limit\<close> is 100 when absent: all
  of them, as many as \<^verbatim>\<open>versionscount\<close> says, when the limit is at least their number;
  the first \<open>limit\<close> ids when the limit is a number that is not negative; all but the last
  \<open>-limit\<close> ids when the limit is negative; none when the limit is not a number.
\<close>

theorem C4_versionscount:
  "(getPackageMetadata e p = Returns (Some md) \<and> md_versions md = Some versions \<longrightarrow>
      get_prop (body (package_handler e ''npmjs.org'' p req)) ''versionscount''
      = Some (JNum (int (length versions)))
      \<and> get_prop (body (package_meta_handler e ''npmjs.org'' p req)) ''versionscount''
        = Some (JNum (int (length versions)))
      \<and> status (versions_handler e ''npmjs.org'' p vreq) = 200)
   \<and> (getPackageMetadata e p = Returns (Some md) \<and> md_versions md = Some versions
        \<and> distinct (map fst versions) \<and> ''__proto__'' \<notin> set (map fst versions) \<longrightarrow>
        mset (map fst (members (body (versions_handler e ''npmjs.org'' p vreq))))
        = mset (js_slice (map fst versions) (Some 0) (js_parseInt (or_default (q_limit vreq) ''100'')))
        \<and> (case js_parseInt (or_default (q_limit vreq) ''100'') of
              None \<Rightarrow> members (body (versions_handler e ''npmjs.org'' p vreq)) = []
            | Some l \<Rightarrow>
                if int (length versions) \<le> l
                then mset (map fst (members (body (versions_handler e ''npmjs.org'' p vreq))))
                       = mset (map fst versions)
                     \<and> int (length (members (body (versions_handler e ''npmjs.org'' p vreq))))
                       = int (length versions)
                else if 0 \<le> l
                then mset (map fst (members (body (versions_handler e ''npmjs.org'' p vreq))))
                       = mset (take (nat l) (map fst versions))
                else mset (map fst (members (body (versions_handler e ''npmjs.org'' p vreq))))
                       = mset (take (length versions - nat (- l)) (map fst versions))))"
proof (intro conjI impI)
  assume a: "getPackageMetadata e p = Returns (Some md) \<and> md_versions md = Some versions"
  have c: "versionsCount md = int (length versions)"
    using a by (simp add: versionsCount_def version_keys_def)
  show "get_prop (body (package_handler e ''npmjs.org'' p req)) ''versionscount''
        = Some (JNum (int (length versions)))"
    using package_versionscount(1)[of e p md req] a c by simp
  show "get_prop (body (package_meta_handler e ''npmjs.org'' p req)) ''versionscount''
        = Some (JNum (int (length versions)))"
    using package_versionscount(2)[of e p md req] a c by simp
  show "status (versions_handler e ''npmjs.org'' p vreq) = 200"
    using a by (simp add: versions_handler_def json_response_def Let_def)
next
  assume a: "getPackageMetadata e p = Returns (Some md) \<and> md_versions md = Some versions
        \<and> distinct (map fst versions) \<and> ''__proto__'' \<notin> set (map fst versions)"
  let ?limit = "js_parseInt (or_default (q_limit vreq) ''100'')"
  let ?keys = "map fst (members (body (versions_handler e ''npmjs.org'' p vreq)))"
  have m: "mset ?keys = mset (js_slice (map fst versions) (Some 0) ?limit)"
    using versions_entries_exact[of e p md versions vreq] a by simp
  then show "mset ?keys = mset (js_slice (map fst versions) (Some 0) ?limit)" .
  show "case ?limit of
          None \<Rightarrow> members (body (versions_handler e ''npmjs.org'' p vreq)) = []
        | Some l \<Rightarrow>
            if int (length versions) \<le> l
            then mset ?keys = mset (map fst versions)
                 \<and> int (length (members (body (versions_handler e ''npmjs.org'' p vreq))))
                   = int (length versions)
            else if 0 \<le> l
            then mset ?keys = mset (take (nat l) (map fst versions))
            else mset ?keys = mset (take (length versions - nat (- l)) (map fst versions))"
  proof (cases ?limit)
    case None
    then have "mset ?keys = {#}" using m by (simp add: js_slice_from_start)
    then show ?thesis using None by simp
  next
    case (Some l)
    show ?thesis
    proof (cases "int (length versions) \<le> l")
      case True
      then have k: "mset ?keys = mset (map fst versions)"
        using m Some by (simp add: js_slice_all)
      then have "size (mset ?keys) = size (mset (map fst versions))" by simp
      then show ?thesis using Some True k by simp
    next
      case False
      then show ?thesis using m Some by (simp add: js_slice_from_start)
    qed
  qed
qed

text \<open>
  The package \<^verbatim>\<open>demo\<close> with its two versions: with the default limit the versions
  endpoint shows both; with \<^verbatim>\<open>limit=1\<close> the first of the document, 2.0.0; with
  \<^verbatim>\<open>limit=-1\<close> all but the last, which is again 2.0.0; with \<^verbatim>\<open>limit=abc\<close> none.
\<close>

theorem C4_versionscount_witness:
  "getPackageMetadata demo_env ''demo'' = Returns (Some demo_metadata)
   \<and> md_versions demo_metadata = Some [(''2.0.0'', plain_entry), (''1.0.0'', plain_entry)]
   \<and> get_prop (body (package_handler demo_env ''npmjs.org'' ''demo'' demo_request)) ''versionscount''
     = Some (JNum 2)
   \<and> get_prop (body (package_meta_handler demo_env ''npmjs.org'' ''demo'' demo_request)) ''versionscount''
     = Some (JNum 2)
   \<and> js_parseInt (or_default (q_limit demo_request) ''100'') = Some 100
   \<and> length (members (body (versions_handler demo_env ''npmjs.org'' ''demo'' demo_request))) = 2
   \<and> mset (map fst (members (body (versions_handler demo_env ''npmjs.org'' ''demo''
              (demo_request\<lparr>q_limit := Some ''1''\<rparr>)))))
     = {#''2.0.0''#}
   \<and> mset (map fst (members (body (versions_handler demo_env ''npmjs.org'' ''demo''
              (demo_request\<lparr>q_limit := Some ''-1''\<rparr>)))))
     = {#''2.0.0''#}
   \<and> members (body (versions_handler demo_env ''npmjs.org'' ''demo''
              (demo_request\<lparr>q_limit := Some ''abc''\<rparr>)))
     = []"
proof -
  let ?versions = "[(''2.0.0'', plain_entry), (''1.0.0'', plain_entry)]"
  have h1: "getPackageMetadata demo_env ''demo'' = Returns (Some demo_metadata)" by code_simp
  have h2: "md_versions demo_metadata = Some ?versions"
    by (simp add: demo_metadata_def)
  have h3: "distinct (map fst ?versions) \<and> ''__proto__'' \<notin> set (map fst ?versions)" by simp
  have l0: "js_parseInt (or_default (q_limit demo_request) ''100'') = Some 100" by code_simp
  have l1: "js_parseInt (or_default (q_limit (demo_request\<lparr>q_limit := Some ''1''\<rparr>)) ''100'') = Some 1"
    by code_simp
  have l2: "js_parseInt (or_default (q_limit (demo_request\<lparr>q_limit := Some ''-1''\<rparr>)) ''100'') = Some (- 1)"
    by code_simp
  have l3: "js_parseInt (or_default (q_limit (demo_request\<lparr>q_limit := Some ''abc''\<rparr>)) ''100'') = None"
    by code_simp
  note count = C4_versionscount[of demo_env "''demo''" demo_metadata ?versions demo_request demo_request,
                 THEN conjunct1, THEN mp, OF conjI[OF h1 h2]]
  note page = C4_versionscount[of demo_env "''demo''" demo_metadata ?versions demo_request,
                 THEN conjunct2, THEN mp, OF conjI[OF h1 conjI[OF h2 h3]], THEN conjunct2]
  have c1: "get_prop (body (package_handler demo_env ''npmjs.org'' ''demo'' demo_request)) ''versionscount''
            = Some (JNum 2)"
    using count by simp
  have c2: "get_prop (body (package_meta_handler demo_env ''npmjs.org'' ''demo'' demo_request)) ''versionscount''
            = Some (JNum 2)"
    using count by simp
  have p0: "length (members (body (versions_handler demo_env ''npmjs.org'' ''demo'' demo_request))) = 2"
    using page[of demo_request] unfolding l0 by simp
  have p1: "mset (map fst (members (body (versions_handler demo_env ''npmjs.org'' ''demo''
              (demo_request\<lparr>q_limit := Some ''1''\<rparr>))))) = {#''2.0.0''#}"
    using page[of "demo_request\<lparr>q_limit := Some ''1''\<rparr>"] unfolding l1 by simp
  have p2: "mset (map fst (members (body (versions_handler demo_env ''npmjs.org'' ''demo''
              (demo_request\<lparr>q_limit := Some ''-1''\<rparr>))))) = {#''2.0.0''#}"
    using page[of "demo_request\<lparr>q_limit := Some ''-1''\<rparr>"] unfolding l2 by simp
  have p3: "members (body (versions_handler demo_env ''npmjs.org'' ''demo''
              (demo_request\<lparr>q_limit := Some ''abc''\<rparr>))) = []"
    using page[of "demo_request\<lparr>q_limit := Some ''abc''\<rparr>"] unfolding l3 by simp
  show ?thesis
    using h1 h2 c1 c2 l0 p0 p1 p2 p3 by (intro conjI)
qed

text \<open>
  C4 as stated fails for a package with more versions than the limit of the versions
  endpoint: the package \<^verbatim>\<open>many\<close> has 101 versions, its resource reports
  \<^verbatim>\<open>versionscount = 101\<close>, and the versions endpoint, with its default limit of 100,
  answers 200 with at most 100 entries.
\<close>

theorem C4_counterexample:
  "get_prop (body (package_handler demo_env ''npmjs.org'' ''many'' demo_request)) ''versionscount''
     = Some (JNum 101)
   \<and> status (versions_handler demo_env ''npmjs.org'' ''many'' demo_request) = 200
   \<and> length (members (body (versions_handler demo_env ''npmjs.org'' ''many'' demo_request))) \<le> 100"
proof -
  have h1: "getPackageMetadata demo_env ''many'' = Returns (Some many_metadata)"
    by (simp add: demo_env_def)
  have h2: "md_versions many_metadata = Some (map (\<lambda>i. (''1.0.'' @ show_nat i, plain_entry)) [0..<101])"
    by (simp add: many_metadata_def)
  have c: "versionsCount many_metadata = 101"
    by (simp add: versionsCount_def version_keys_def h2)
  have l: "js_parseInt (or_default (q_limit demo_request) ''100'') = Some 100" by code_simp
  have "length (js_slice (map fst (map (\<lambda>i. (''1.0.'' @ show_nat i, plain_entry)) [0..<101]))
                  (Some 0) (Some 100)) \<le> 100"
    using length_js_slice_window[of 100
        "map fst (map (\<lambda>i. (''1.0.'' @ show_nat i, plain_entry)) [0..<101])" "Some 0"]
    by (simp add: num_add_def)
  then have n: "length (members (body (versions_handler demo_env ''npmjs.org'' ''many'' demo_request))) \<le> 100"
    using versions_entries_le[OF h1 h2, of demo_request] l by simp
  have s: "status (versions_handler demo_env ''npmjs.org'' ''many'' demo_request) = 200"
    using h1 h2 by (simp add: versions_handler_def json_response_def Let_def)
  show ?thesis using package_versionscount(1)[OF h1, of demo_request] c n s by simp
qed

section \<open>Ancestors and write methods\<close>

lemma index_from_found:
  "v \<notin> set xs \<Longrightarrow> index_from i (xs @ v # ys) v = i + int (length xs)"
  by (induction xs arbitrary: i) auto

lemma index_from_absent: "v \<notin> set xs \<Longrightarrow> index_from i xs v = -1"
  by (induction xs arbitrary: i) auto

lemma ancestor_of_predecessor:
  assumes "allVersions pm = xs @ a # v # ys" and "v \<notin> set xs" and "v \<noteq> a"
  shows "ancestor_of pm v = a"
proof -
  have "index_from 0 ((xs @ [a]) @ v # ys) v = 0 + int (length (xs @ [a]))"
    by (rule index_from_found) (use assms(2,3) in auto)
  then have i: "js_indexOf (allVersions pm) v = int (length xs) + 1"
    by (simp add: js_indexOf_def assms(1))
  have "(xs @ a # v # ys) ! length xs = a" by simp
  then show ?thesis using i by (simp add: ancestor_of_def Let_def assms(1) nat_add_distrib)
qed

lemma ancestor_of_first_or_absent:
  assumes "allVersions pm = [] \<or> hd (allVersions pm) = v \<or> v \<notin> set (allVersions pm)"
  shows "ancestor_of pm v = v"
proof (cases "v \<in> set (allVersions pm)")
  case False
  then show ?thesis by (simp add: ancestor_of_def Let_def js_indexOf_def index_from_absent)
next
  case True
  then obtain rest where "allVersions pm = v # rest" using assms by (cases "allVersions pm") auto
  then show ?thesis by (simp add: ancestor_of_def Let_def js_indexOf_def)
qed

text \<open>
  C3. Both version handlers take as ancestor the key that precedes the version in the
  key order of the package document (lemma \<open>ancestor_of_predecessor\<close>), and the version
  itself when it is the first key or not a key at all (lemma
  \<open>ancestor_of_first_or_absent\<close>); the publication times are not consulted. For the package
  \<^verbatim>\<open>demo\<close>, whose document lists 2.0.0 before 1.0.0 although 1.0.0 is the older one,
  the oldest version 1.0.0 gets the ancestor 2.0.0 (the claim: 1.0.0 itself) and the
  version 2.0.0 gets itself as ancestor (the claim: 1.0.0), in the full view and in the
  meta view alike.
\<close>

theorem C3_ancestor_departs:
  "get_prop (body (version_meta_handler demo_env ''npmjs.org'' ''demo'' ''1.0.0'' demo_request)) ''ancestor''
     = Some (JStr ''2.0.0'')
   \<and> get_prop (body (version_handler demo_env ''npmjs.org'' ''demo'' ''1.0.0'' demo_request)) ''ancestor''
     = Some (JStr ''2.0.0'')
   \<and> get_prop (body (version_handler demo_env ''npmjs.org'' ''demo'' ''1.0.0'' demo_request)) ''versionid''
     = Some (JStr ''1.0.0'')
   \<and> spec_chronological demo_metadata = [''1.0.0'', ''2.0.0'']
   \<and> spec_ancestor demo_metadata ''1.0.0'' = ''1.0.0''
   \<and> get_prop (body (version_meta_handler demo_env ''npmjs.org'' ''demo'' ''2.0.0'' demo_request)) ''ancestor''
     = Some (JStr ''2.0.0'')
   \<and> get_prop (body (version_handler demo_env ''npmjs.org'' ''demo'' ''2.0.0'' demo_request)) ''ancestor''
     = Some (JStr ''2.0.0'')
   \<and> spec_ancestor demo_metadata ''2.0.0'' = ''1.0.0''"
  by code_simp

lemma write_method_upper:
  "m \<in> set [''PUT'', ''PATCH'', ''POST'', ''DELETE''] \<Longrightarrow> toUpperCase m = m"
  by (auto simp: toUpperCase_def upper_char_def)

text \<open>
  C8 (as amended). On the npm facade every PUT, PATCH, POST or DELETE request that the
  middleware chain passes on, on any path that does not match a route with a parameter that
  cannot be decoded, is answered with status 405 and the problem body with the title
  \<^verbatim>\<open>Method Not Allowed\<close> and a detail saying that the registry is read-only, and the
  server state is as before. A request of any method whose path matches a route with a
  parameter that cannot be decoded is answered by the error handlers. On the PyPI facade a
  PUT, PATCH, POST or DELETE request is answered with status 405, the same title and the
  detail \<^verbatim>\<open><METHOD> method not supported on <path>\<close>, provided it passes the API key check
  and neither the middleware nor a mounted router answers it first.
\<close>

theorem C8_write_methods:
  "(middleware e req = None \<and> npm_match (segments req) \<noteq> RBadParam
      \<and> req_method req \<in> set [''PUT'', ''PATCH'', ''POST'', ''DELETE''] \<longrightarrow>
      npm_app e st req
      = (\<lparr>status = 405, headers = [],
          body = JObj ([(''type'', JStr ''about:blank''),
                        (''title'', JStr ''Method Not Allowed''),
                        (''status'', JNum 405),
                        (''detail'', JStr (''This registry is read-only. '' @ req_method req
                                           @ '' operations are not supported.''))]
                       @ (if originalUrl req \<noteq> [] then [(''instance'', JStr (originalUrl req))]
                          else []))\<rparr>,
         st))
   \<and> (middleware e req = None \<and> npm_match (segments req) = RBadParam \<longrightarrow>
        npm_app e st req = (errorHandler e req, st))
   \<and> (py_middleware pe preq = None \<and> api_key_auth pe preq = None
       \<and> py_routers pe (strip_trailing_slash preq) = None
       \<and> py_method preq \<in> set [''PUT'', ''PATCH'', ''POST'', ''DELETE''] \<longrightarrow>
      pypi_app pe preq
      = \<lparr>status = 405, headers = [],
         body = JObj [(''type'', JStr ''about:blank''),
                      (''title'', JStr ''Method Not Allowed''),
                      (''status'', JNum 405),
                      (''detail'', JStr (py_method preq @ '' method not supported on ''
                                         @ py_path (strip_trailing_slash preq))),
                      (''instance'', JStr (py_path (strip_trailing_slash preq)))]\<rparr>)"
proof (intro conjI impI)
  assume a: "middleware e req = None \<and> npm_match (segments req) \<noteq> RBadParam
      \<and> req_method req \<in> set [''PUT'', ''PATCH'', ''POST'', ''DELETE'']"
  then have u: "toUpperCase (req_method req) = req_method req"
    using write_method_upper by blast
  have ng: "req_method req \<noteq> ''GET'' \<and> req_method req \<noteq> ''HEAD''" using a by auto
  show "npm_app e st req
      = (\<lparr>status = 405, headers = [],
          body = JObj ([(''type'', JStr ''about:blank''),
                        (''title'', JStr ''Method Not Allowed''),
                        (''status'', JNum 405),
                        (''detail'', JStr (''This registry is read-only. '' @ req_method req
                                           @ '' operations are not supported.''))]
                       @ (if originalUrl req \<noteq> [] then [(''instance'', JStr (originalUrl req))]
                          else []))\<rparr>,
         st)"
    using a ng
    by (simp add: npm_app_def write_catch_all_def u Let_def json_response_def
        createProblemDetails_def truthy_str_def)
next
  assume "middleware e req = None \<and> npm_match (segments req) = RBadParam"
  then show "npm_app e st req = (errorHandler e req, st)"
    by (simp add: npm_app_def)
next
  assume b: "py_middleware pe preq = None \<and> api_key_auth pe preq = None
       \<and> py_routers pe (strip_trailing_slash preq) = None
       \<and> py_method preq \<in> set [''PUT'', ''PATCH'', ''POST'', ''DELETE'']"
  have m: "py_method (strip_trailing_slash preq) = py_method preq"
    by (simp add: strip_trailing_slash_def)
  have ng: "py_method preq \<noteq> ''GET'' \<and> py_method preq \<noteq> ''HEAD''" using b by auto
  show "pypi_app pe preq
      = \<lparr>status = 405, headers = [],
         body = JObj [(''type'', JStr ''about:blank''),
                      (''title'', JStr ''Method Not Allowed''),
                      (''status'', JNum 405),
                      (''detail'', JStr (py_method preq @ '' method not supported on ''
                                         @ py_path (strip_trailing_slash preq))),
                      (''instance'', JStr (py_path (strip_trailing_slash preq)))]\<rparr>"
    using b ng
    by (simp add: pypi_app_def Let_def m py_method_not_allowed_def json_response_def)
qed

text \<open>
  A POST on each of the two facades; a DELETE of the scoped package
  \<^verbatim>\<open>/noderegistries/npmjs.org/packages/%40scope%2Fpkg\<close>, whose parameters decode; and a
  POST to \<^verbatim>\<open>/noderegistries/%E0%A4%A\<close>, whose parameter does not, so that it is the error
  handler that answers.
\<close>

theorem C8_write_methods_witness:
  "middleware demo_env (demo_request\<lparr>req_method := ''POST''\<rparr>) = None
   \<and> npm_match (segments (demo_request\<lparr>req_method := ''POST''\<rparr>)) = RPackages ''npmjs.org''
   \<and> req_method (demo_request\<lparr>req_method := ''POST''\<rparr>) \<in> set [''PUT'', ''PATCH'', ''POST'', ''DELETE'']
   \<and> status (fst (npm_app demo_env demo_state (demo_request\<lparr>req_method := ''POST''\<rparr>))) = 405
   \<and> snd (npm_app demo_env demo_state (demo_request\<lparr>req_method := ''POST''\<rparr>)) = demo_state
   \<and> npm_match [''noderegistries'', ''npmjs.org'', ''packages'', ''%40scope%2Fpkg'']
      = RPackage ''npmjs.org'' ''@scope/pkg''
   \<and> status (fst (npm_app demo_env demo_state
        (demo_request\<lparr>req_method := ''DELETE'',
           segments := [''noderegistries'', ''npmjs.org'', ''packages'', ''%40scope%2Fpkg'']\<rparr>))) = 405
   \<and> npm_match [''noderegistries'', ''%E0%A4%A''] = RBadParam
   \<and> npm_app demo_env demo_state
        (demo_request\<lparr>req_method := ''POST'', segments := [''noderegistries'', ''%E0%A4%A'']\<rparr>)
      = (\<lparr>status = 400, headers = [], body = JNull\<rparr>, demo_state)
   \<and> py_middleware demo_py_env demo_py_request = None
   \<and> api_key_auth demo_py_env demo_py_request = None
   \<and> py_routers demo_py_env (strip_trailing_slash demo_py_request) = None
   \<and> py_method demo_py_request \<in> set [''PUT'', ''PATCH'', ''POST'', ''DELETE'']
   \<and> status (pypi_app demo_py_env demo_py_request) = 405"
proof -
  let ?post = "demo_request\<lparr>req_method := ''POST''\<rparr>"
  let ?delete = "demo_request\<lparr>req_method := ''DELETE'',
           segments := [''noderegistries'', ''npmjs.org'', ''packages'', ''%40scope%2Fpkg'']\<rparr>"
  let ?bad = "demo_request\<lparr>req_method := ''POST'', segments := [''noderegistries'', ''%E0%A4%A'']\<rparr>"
  have n1: "middleware demo_env ?post = None"
    by (simp add: demo_env_def)
  have r1: "npm_match (segments ?post) = RPackages ''npmjs.org''" by code_simp
  then have r1': "npm_match (segments ?post) \<noteq> RBadParam" by simp
  have n2: "req_method ?post \<in> set [''PUT'', ''PATCH'', ''POST'', ''DELETE'']"
    by simp
  have d1: "middleware demo_env ?delete = None" by (simp add: demo_env_def)
  have d2: "npm_match [''noderegistries'', ''npmjs.org'', ''packages'', ''%40scope%2Fpkg'']
            = RPackage ''npmjs.org'' ''@scope/pkg''"
    by code_simp
  then have d2': "npm_match (segments ?delete) \<noteq> RBadParam" by simp
  have d3: "req_method ?delete \<in> set [''PUT'', ''PATCH'', ''POST'', ''DELETE'']" by simp
  have b1: "middleware demo_env ?bad = None" by (simp add: demo_env_def)
  have b2: "npm_match [''noderegistries'', ''%E0%A4%A''] = RBadParam" by code_simp
  then have b2': "npm_match (segments ?bad) = RBadParam" by simp
  have b3: "errorHandler demo_env ?bad = \<lparr>status = 400, headers = [], body = JNull\<rparr>"
    by (simp add: demo_env_def)
  have p1: "py_middleware demo_py_env demo_py_request = None" by (simp add: demo_py_env_def)
  have p2: "api_key_auth demo_py_env demo_py_request = None"
    by (simp add: api_key_auth_def demo_py_env_def truthy_str_def)
  have p3: "py_routers demo_py_env (strip_trailing_slash demo_py_request) = None"
    by (simp add: demo_py_env_def)
  have p4: "py_method demo_py_request \<in> set [''PUT'', ''PATCH'', ''POST'', ''DELETE'']"
    by (simp add: demo_py_request_def)
  have a: "status (fst (npm_app demo_env demo_state ?post)) = 405
           \<and> snd (npm_app demo_env demo_state ?post) = demo_state"
    using C8_write_methods[of demo_env ?post demo_state demo_py_env demo_py_request,
            THEN conjunct1, THEN mp, OF conjI[OF n1 conjI[OF r1' n2]]]
    by simp
  have d: "status (fst (npm_app demo_env demo_state ?delete)) = 405"
    using C8_write_methods[of demo_env ?delete demo_state demo_py_env demo_py_request,
            THEN conjunct1, THEN mp, OF conjI[OF d1 conjI[OF d2' d3]]]
    by simp
  have e: "npm_app demo_env demo_state ?bad = (\<lparr>status = 400, headers = [], body = JNull\<rparr>, demo_state)"
    using C8_write_methods[of demo_env ?bad demo_state demo_py_env demo_py_request,
            THEN conjunct2, THEN conjunct1, THEN mp, OF conjI[OF b1 b2']]
    unfolding b3 .
  have b: "status (pypi_app demo_py_env demo_py_request) = 405"
    using C8_write_methods[of demo_env ?post demo_state demo_py_env demo_py_request,
            THEN conjunct2, THEN conjunct2, THEN mp, OF conjI[OF p1 conjI[OF p2 conjI[OF p3 p4]]]]
    by simp
  show ?thesis using n1 r1 n2 a d2 d b2 e p1 p2 p3 p4 b by (intro conjI) simp_all
qed

text \<open>
  C8 as stated fails on the PyPI facade: with an API key configured, a POST without an
  \<^verbatim>\<open>Authorization\<close> header is answered 401 by the key check, which runs before the 405
  handler; and without a key the 405 body's detail names the method and the path and does
  not say that the registry is read-only.
\<close>

theorem C8_counterexample:
  "status (pypi_app (demo_py_env\<lparr>API_KEY := Some ''secret''\<rparr>) demo_py_request) = 401
   \<and> get_prop (body (pypi_app demo_py_env demo_py_request)) ''detail''
     = Some (JStr ''POST method not supported on /pythonregistries/pypi.org/packages'')
   \<and> \<not> js_includes ''POST method not supported on /pythonregistries/pypi.org/packages'' ''read-only''"
  by code_simp

section \<open>The self and xid attributes\<close>

lemma map_of_assign_existing_other:
  "key \<noteq> k \<Longrightarrow> map_of (assign_existing obj k v) key = map_of obj key"
  by (induction obj k v rule: assign_existing.induct) auto

lemma map_of_insert_index_other:
  "key \<noteq> k \<Longrightarrow> map_of (insert_index n k v obj) key = map_of obj key"
  by (induction n k v obj rule: insert_index.induct) (auto split: option.splits)

lemma map_of_obj_set_other: "key \<noteq> k \<Longrightarrow> map_of (obj_set obj k v) key = map_of obj key"
  by (auto simp: obj_set_def map_of_assign_existing_other map_of_insert_index_other map_add_def
           split: option.splits)

lemma fold_members:
  assumes "\<And>x acc k v. (k, v) \<in> set (step x acc) \<Longrightarrow> (k, v) \<in> set acc \<or> P k v"
    and "(k, v) \<in> set (fold step xs acc)"
  shows "(k, v) \<in> set acc \<or> P k v"
  using assms(2)
proof (induction xs arbitrary: acc)
  case Nil
  then show ?case by simp
next
  case (Cons x xs)
  then have "(k, v) \<in> set (step x acc) \<or> P k v" by simp
  then show ?case using assms(1) by blast
qed

lemma entry_self:
  "self_is_base_xid base (JObj (package_entry e base n c @ extra)) \<longleftrightarrow> encodeURIComponent n = n"
  by (simp add: self_is_base_xid_def get_prop_def package_entry_def)

lemma collect_filtered_members:
  assumes "(k, doc) \<in> set (collect_filtered e base rs)"
  shows "self_is_base_xid base doc \<longleftrightarrow> encodeURIComponent k = k"
proof -
  have "(k, doc) \<in> set ([] :: jobject)
        \<or> (self_is_base_xid base doc \<longleftrightarrow> encodeURIComponent k = k)"
    using assms(1) unfolding collect_filtered_def
  proof (rule fold_members[rotated])
    fix x acc k v
    assume "(k, v) \<in> set (if truthy_str (result_name x)
             then obj_set acc (the (result_name x)) (filtered_entry e base x (the (result_name x)))
             else acc)"
    then show "(k, v) \<in> set acc \<or> (self_is_base_xid base v \<longleftrightarrow> encodeURIComponent k = k)"
      by (auto simp: filtered_entry_def entry_self dest!: obj_set_set split: if_splits)
  qed
  then show ?thesis by simp
qed

lemma collect_cached_members:
  assumes "(k, doc) \<in> set (collect_cached e base names)"
  shows "self_is_base_xid base doc \<longleftrightarrow> encodeURIComponent k = k"
proof -
  have "(k, doc) \<in> set ([] :: jobject)
        \<or> (self_is_base_xid base doc \<longleftrightarrow> encodeURIComponent k = k)"
    using assms(1) unfolding collect_cached_def
  proof (rule fold_members[rotated])
    fix x acc k v
    assume "(k, v) \<in> set (obj_set acc x (JObj (package_entry e base x (nowISO e))))"
    then show "(k, v) \<in> set acc \<or> (self_is_base_xid base v \<longleftrightarrow> encodeURIComponent k = k)"
      using entry_self[of base e k "nowISO e" "[]"] by (auto dest!: obj_set_set)
  qed
  then show ?thesis by simp
qed

lemma collect_searched_members:
  assumes "(k, doc) \<in> set (collect_searched e base objs)"
  shows "self_is_base_xid base doc \<longleftrightarrow> encodeURIComponent k = k"
proof -
  have "(k, doc) \<in> set ([] :: jobject)
        \<or> (self_is_base_xid base doc \<longleftrightarrow> encodeURIComponent k = k)"
    using assms(1) unfolding collect_searched_def
  proof (rule fold_members[rotated])
    fix x acc k v
    assume "(k, v) \<in> set (case pr_package x of
                None \<Rightarrow> acc
              | Some p \<Rightarrow>
                  if truthy_str (pi_name p)
                  then obj_set acc (the (pi_name p)) (searched_entry e base p (the (pi_name p)))
                  else acc)"
    then show "(k, v) \<in> set acc \<or> (self_is_base_xid base v \<longleftrightarrow> encodeURIComponent k = k)"
      by (auto simp: searched_entry_def entry_self dest!: obj_set_set split: if_splits option.splits)
  qed
  then show ?thesis by simp
qed

lemma packages_handler_200_registry:
  "status (fst (packages_handler e st registryId req)) = 200 \<Longrightarrow> registryId = ''npmjs.org''"
  by (auto simp: packages_handler_def registry_not_found_def json_response_def split: if_splits)

lemma packages_members:
  assumes "status (fst (packages_handler e st registryId req)) = 200"
    and "(k, doc) \<in> set (members (body (fst (packages_handler e st registryId req))))"
  shows "self_is_base_xid (baseUrl req) doc \<longleftrightarrow> encodeURIComponent k = k"
proof -
  have reg: "registryId = ''npmjs.org''" using assms(1) by (rule packages_handler_200_registry)
  obtain packages evs where
    g: "gather_packages e st req (js_parseInt (or_default (q_limit req) ''20''))
               (js_parseInt (or_default (q_offset req) ''0'')) = (Some packages, evs)" and
    r: "fst (packages_handler e st ''npmjs.org'' req)
        = \<lparr>status = 200,
           headers = link_headers req (js_parseInt (or_default (q_limit req) ''20''))
                       (js_parseInt (or_default (q_offset req) ''0'')) packages,
           body = JObj packages\<rparr>"
    using packages_handler_200D[of e st req] assms(1) reg by blast
  have m: "(k, doc) \<in> set packages" using assms(2) reg by (simp add: r members_def)
  from g have "packages = [] \<or> (\<exists>rs. packages = collect_filtered e (baseUrl req) rs)
      \<or> (\<exists>ns. packages = collect_cached e (baseUrl req) ns)
      \<or> (\<exists>os. packages = collect_searched e (baseUrl req) os)"
    by (auto simp: gather_packages_def Let_def split: if_splits prod.splits outcome.splits option.splits)
  then show ?thesis
    using m collect_filtered_members collect_cached_members collect_searched_members
    by auto
qed

lemma versions_handler_200D:
  assumes "status (versions_handler e registryId p req) = 200"
  shows "registryId = ''npmjs.org''
         \<and> (\<exists>md versions. getPackageMetadata e p = Returns (Some md) \<and> md_versions md = Some versions)"
  using assms
  by (auto simp: versions_handler_def registry_not_found_def package_not_found_def json_response_def
        Let_def split: if_splits outcome.splits option.splits)

lemma versions_members:
  assumes "status (versions_handler e registryId p req) = 200"
    and "(vk, vdoc) \<in> set (members (body (versions_handler e registryId p req)))"
    and "encodeURIComponent p = p" and "encodeURIComponent vk = vk"
  shows "self_is_base_xid (baseUrl req) vdoc"
proof -
  obtain md versions where reg: "registryId = ''npmjs.org''"
    and md: "getPackageMetadata e p = Returns (Some md)" "md_versions md = Some versions"
    using versions_handler_200D[OF assms(1)] by blast
  have "(vk, vdoc) \<in> set ([] :: jobject)
        \<or> vdoc = versions_entry e (baseUrl req) p md versions vk"
    using assms(2) unfolding reg versions_handler_body[OF md] members_def json.case
  proof (rule fold_members[rotated])
    fix x acc k v
    assume "(k, v) \<in> set (obj_set acc x (versions_entry e (baseUrl req) p md versions x))"
    then show "(k, v) \<in> set acc \<or> v = versions_entry e (baseUrl req) p md versions k"
      by (auto dest!: obj_set_set)
  qed
  then have "vdoc = versions_entry e (baseUrl req) p md versions vk" by simp
  then show ?thesis
    using assms(3,4) by (simp add: versions_entry_def Let_def self_is_base_xid_def get_prop_def)
qed

lemma root_self_xid:
  "get_prop (body (root_handler e req)) ''xid'' = Some (JStr ''/'')"
  "get_prop (body (root_handler e req)) ''self'' = Some (JStr (baseUrl req))"
  by (simp_all add: root_handler_def Let_def get_prop_def map_of_obj_set_other)

lemma group_docs_self:
  "self_is_base_xid base (group_document e base r path)"
  by (simp add: group_document_def self_is_base_xid_def get_prop_def)


text \<open>
  C1 (as amended). Every group document (alone and inside the group collection), and every
  200 response for a resource, for its meta view, for a version and for the meta view of a
  version, has \<^verbatim>\<open>self\<close> equal to the base URL followed by \<^verbatim>\<open>xid\<close>, whatever the names
  are. The registry document has \<^verbatim>\<open>xid = "/"\<close> and \<^verbatim>\<open>self\<close> equal to the base URL itself.
  An entry of a 200 packages collection has \<^verbatim>\<open>self\<close> equal to the base URL followed by
  \<^verbatim>\<open>xid\<close> exactly when \<^verbatim>\<open>encodeURIComponent\<close> leaves its name unchanged, and an entry
  of a 200 versions collection has it when \<^verbatim>\<open>encodeURIComponent\<close> leaves the package name
  and the version id unchanged.
\<close>

theorem C1_self_is_base_plus_xid:
  "get_prop (body (root_handler e req)) ''xid'' = Some (JStr ''/'')
   \<and> get_prop (body (root_handler e req)) ''self'' = Some (JStr (baseUrl req))
   \<and> body (groups_handler e req)
       = JObj [(''npmjs.org'', group_document e (baseUrl req) ''npmjs.org'' ''/noderegistries/npmjs.org'')]
   \<and> self_is_base_xid (baseUrl req)
        (group_document e (baseUrl req) ''npmjs.org'' ''/noderegistries/npmjs.org'')
   \<and> (status (group_handler e registryId req) = 200 \<longrightarrow>
        self_is_base_xid (baseUrl req) (body (group_handler e registryId req)))
   \<and> (status (package_handler e registryId p req) = 200 \<longrightarrow>
        self_is_base_xid (baseUrl req) (body (package_handler e registryId p req)))
   \<and> (status (package_meta_handler e registryId p req) = 200 \<longrightarrow>
        self_is_base_xid (baseUrl req) (body (package_meta_handler e registryId p req)))
   \<and> (status (version_handler e registryId p v req) = 200 \<longrightarrow>
        self_is_base_xid (baseUrl req) (body (version_handler e registryId p v req)))
   \<and> (status (version_meta_handler e registryId p v req) = 200 \<longrightarrow>
        self_is_base_xid (baseUrl req) (body (version_meta_handler e registryId p v req)))
   \<and> (status (fst (packages_handler e st registryId req)) = 200
        \<and> (k, doc) \<in> set (members (body (fst (packages_handler e st registryId req)))) \<longrightarrow>
        (self_is_base_xid (baseUrl req) doc \<longleftrightarrow> encodeURIComponent k = k))
   \<and> (status (versions_handler e registryId p req) = 200
        \<and> (vk, vdoc) \<in> set (members (body (versions_handler e registryId p req)))
        \<and> encodeURIComponent p = p \<and> encodeURIComponent vk = vk \<longrightarrow>
        self_is_base_xid (baseUrl req) vdoc)"
proof (intro conjI)
  show "get_prop (body (root_handler e req)) ''xid'' = Some (JStr ''/'')"
    by (rule root_self_xid)
  show "get_prop (body (root_handler e req)) ''self'' = Some (JStr (baseUrl req))"
    by (rule root_self_xid)
  show "self_is_base_xid (baseUrl req)
          (group_document e (baseUrl req) ''npmjs.org'' ''/noderegistries/npmjs.org'')"
    by (rule group_docs_self)
  show "body (groups_handler e req)
           = JObj [(''npmjs.org'', group_document e (baseUrl req) ''npmjs.org'' ''/noderegistries/npmjs.org'')]"
    by (simp add: groups_handler_def json_response_def)
  show "status (group_handler e registryId req) = 200 \<longrightarrow>
        self_is_base_xid (baseUrl req) (body (group_handler e registryId req))"
    by (simp add: group_handler_def registry_not_found_def json_response_def group_docs_self)
  show "status (package_handler e registryId p req) = 200 \<longrightarrow>
        self_is_base_xid (baseUrl req) (body (package_handler e registryId p req))"
    by (simp add: package_handler_def registry_not_found_def package_not_found_def json_response_def
          Let_def self_is_base_xid_def get_prop_def split: outcome.splits option.splits)
  show "status (package_meta_handler e registryId p req) = 200 \<longrightarrow>
        self_is_base_xid (baseUrl req) (body (package_meta_handler e registryId p req))"
    by (simp add: package_meta_handler_def registry_not_found_def package_not_found_def
          json_response_def Let_def self_is_base_xid_def get_prop_def
          split: outcome.splits option.splits)
  show "status (version_handler e registryId p v req) = 200 \<longrightarrow>
        self_is_base_xid (baseUrl req) (body (version_handler e registryId p v req))"
    by (simp add: version_handler_def registry_not_found_plain_def version_not_found_def
          json_response_def Let_def self_is_base_xid_def get_prop_def
          split: outcome.splits option.splits)
  show "status (version_meta_handler e registryId p v req) = 200 \<longrightarrow>
        self_is_base_xid (baseUrl req) (body (version_meta_handler e registryId p v req))"
    by (simp add: version_meta_handler_def registry_not_found_plain_def version_not_found_def
          json_response_def Let_def self_is_base_xid_def get_prop_def
          split: outcome.splits option.splits)
  show "status (fst (packages_handler e st registryId req)) = 200
        \<and> (k, doc) \<in> set (members (body (fst (packages_handler e st registryId req)))) \<longrightarrow>
        (self_is_base_xid (baseUrl req) doc \<longleftrightarrow> encodeURIComponent k = k)"
    using packages_members[of e st registryId req k doc] by blast
  show "status (versions_handler e registryId p req) = 200
        \<and> (vk, vdoc) \<in> set (members (body (versions_handler e registryId p req)))
        \<and> encodeURIComponent p = p \<and> encodeURIComponent vk = vk \<longrightarrow>
        self_is_base_xid (baseUrl req) vdoc"
    using versions_members[of e registryId p req vk vdoc] by blast
qed

text \<open>
  On the demonstration registry: the resource of the scoped package \<^verbatim>\<open>@scope/pkg\<close> and its
  meta view; the version 1.0.0 of \<^verbatim>\<open>demo\<close> and its meta view; the entry \<^verbatim>\<open>alpha\<close> of
  the sorted packages collection, and the entry \<^verbatim>\<open>@scope/pkg\<close> beside it, which does not
  have the property; and the entry 1.0.0 of the versions collection of \<^verbatim>\<open>demo\<close>.
\<close>

theorem C1_self_is_base_plus_xid_witness:
  "status (package_handler demo_env ''npmjs.org'' ''@scope/pkg'' demo_request) = 200
   \<and> encodeURIComponent ''@scope/pkg'' = ''%40scope%2Fpkg''
   \<and> get_prop (body (package_handler demo_env ''npmjs.org'' ''@scope/pkg'' demo_request)) ''self''
       = Some (JStr ''http://localhost:3100/noderegistries/npmjs.org/packages/@scope/pkg'')
   \<and> self_is_base_xid ''http://localhost:3100''
        (body (package_handler demo_env ''npmjs.org'' ''@scope/pkg'' demo_request))
   \<and> self_is_base_xid ''http://localhost:3100''
        (body (package_meta_handler demo_env ''npmjs.org'' ''@scope/pkg'' demo_request))
   \<and> self_is_base_xid ''http://localhost:3100''
        (body (group_handler demo_env ''npmjs.org'' demo_request))
   \<and> status (version_handler demo_env ''npmjs.org'' ''demo'' ''1.0.0'' demo_request) = 200
   \<and> self_is_base_xid ''http://localhost:3100''
        (body (version_handler demo_env ''npmjs.org'' ''demo'' ''1.0.0'' demo_request))
   \<and> self_is_base_xid ''http://localhost:3100''
        (body (version_meta_handler demo_env ''npmjs.org'' ''demo'' ''1.0.0'' demo_request))
   \<and> status (fst (packages_handler demo_env demo_state ''npmjs.org'' (demo_request\<lparr>q_sort := Some ''name=asc''\<rparr>))) = 200
   \<and> encodeURIComponent ''alpha'' = ''alpha''
   \<and> self_is_base_xid ''http://localhost:3100''
        (the (map_of (members (body (fst (packages_handler demo_env demo_state ''npmjs.org''
                                           (demo_request\<lparr>q_sort := Some ''name=asc''\<rparr>))))) ''alpha''))
   \<and> \<not> self_is_base_xid ''http://localhost:3100''
        (the (map_of (members (body (fst (packages_handler demo_env demo_state ''npmjs.org''
                                           (demo_request\<lparr>q_sort := Some ''name=asc''\<rparr>))))) ''@scope/pkg''))
   \<and> encodeURIComponent ''demo'' = ''demo''
   \<and> encodeURIComponent ''1.0.0'' = ''1.0.0''
   \<and> self_is_base_xid ''http://localhost:3100''
        (the (map_of (members (body (versions_handler demo_env ''npmjs.org'' ''demo'' demo_request))) ''1.0.0''))"
proof -
  let ?req = "demo_request\<lparr>q_sort := Some ''name=asc''\<rparr>"
  let ?doc = "the (map_of (members (body (fst (packages_handler demo_env demo_state ''npmjs.org'' ?req)))) ''alpha'')"
  let ?sdoc = "the (map_of (members (body (fst (packages_handler demo_env demo_state ''npmjs.org'' ?req)))) ''@scope/pkg'')"
  let ?vdoc = "the (map_of (members (body (versions_handler demo_env ''npmjs.org'' ''demo'' demo_request))) ''1.0.0'')"
  have b: "baseUrl demo_request = ''http://localhost:3100''" by (simp add: demo_request_def)
  have b': "baseUrl ?req = ''http://localhost:3100''" by (simp add: demo_request_def)
  have r1: "status (package_handler demo_env ''npmjs.org'' ''@scope/pkg'' demo_request) = 200"
    by code_simp
  have r2: "status (package_meta_handler demo_env ''npmjs.org'' ''@scope/pkg'' demo_request) = 200"
    by code_simp
  have r3: "status (group_handler demo_env ''npmjs.org'' demo_request) = 200" by code_simp
  have r4: "status (version_handler demo_env ''npmjs.org'' ''demo'' ''1.0.0'' demo_request) = 200"
    by code_simp
  have r5: "status (version_meta_handler demo_env ''npmjs.org'' ''demo'' ''1.0.0'' demo_request) = 200"
    by code_simp
  have r6: "status (fst (packages_handler demo_env demo_state ''npmjs.org'' ?req)) = 200"
    by code_simp
  have r7: "status (versions_handler demo_env ''npmjs.org'' ''demo'' demo_request) = 200"
    by code_simp
  have enc: "encodeURIComponent ''@scope/pkg'' = ''%40scope%2Fpkg''" by code_simp
  have enc': "encodeURIComponent ''@scope/pkg'' \<noteq> ''@scope/pkg''" unfolding enc by simp
  have s: "get_prop (body (package_handler demo_env ''npmjs.org'' ''@scope/pkg'' demo_request)) ''self''
       = Some (JStr ''http://localhost:3100/noderegistries/npmjs.org/packages/@scope/pkg'')"
    by code_simp
  have m1: "(''alpha'', ?doc) \<in> set (members (body (fst (packages_handler demo_env demo_state ''npmjs.org'' ?req))))"
    by code_simp
  have m2: "(''@scope/pkg'', ?sdoc) \<in> set (members (body (fst (packages_handler demo_env demo_state ''npmjs.org'' ?req))))"
    by code_simp
  have m3: "(''1.0.0'', ?vdoc) \<in> set (members (body (versions_handler demo_env ''npmjs.org'' ''demo'' demo_request)))"
    by code_simp
  have e1: "encodeURIComponent ''alpha'' = ''alpha''" by code_simp
  have e2: "encodeURIComponent ''demo'' = ''demo''" by code_simp
  have e3: "encodeURIComponent ''1.0.0'' = ''1.0.0''" by code_simp
  note t = C1_self_is_base_plus_xid[of demo_env demo_request "''npmjs.org''" "''@scope/pkg''"]
  note u = C1_self_is_base_plus_xid[of demo_env demo_request "''npmjs.org''" "''demo''" "''1.0.0''"]
  note c = C1_self_is_base_plus_xid[of demo_env ?req "''npmjs.org''" "''demo''" "''1.0.0''" demo_state]
  have a1: "self_is_base_xid ''http://localhost:3100''
              (body (package_handler demo_env ''npmjs.org'' ''@scope/pkg'' demo_request))"
    using t r1 unfolding b by blast
  have a2: "self_is_base_xid ''http://localhost:3100''
              (body (package_meta_handler demo_env ''npmjs.org'' ''@scope/pkg'' demo_request))"
    using t r2 unfolding b by blast
  have a3: "self_is_base_xid ''http://localhost:3100''
              (body (group_handler demo_env ''npmjs.org'' demo_request))"
    using t r3 unfolding b by blast
  have a4: "self_is_base_xid ''http://localhost:3100''
              (body (version_handler demo_env ''npmjs.org'' ''demo'' ''1.0.0'' demo_request))"
    using u r4 unfolding b by blast
  have a5: "self_is_base_xid ''http://localhost:3100''
              (body (version_meta_handler demo_env ''npmjs.org'' ''demo'' ''1.0.0'' demo_request))"
    using u r5 unfolding b by blast
  have a6: "self_is_base_xid ''http://localhost:3100'' ?doc"
    using c[of "''alpha''" ?doc] r6 m1 e1 unfolding b' by blast
  have a7: "\<not> self_is_base_xid ''http://localhost:3100'' ?sdoc"
    using c[of "''@scope/pkg''" ?sdoc] r6 m2 enc' unfolding b' by blast
  have a8: "self_is_base_xid ''http://localhost:3100'' ?vdoc"
    using u[of demo_state "''k''" JNull "''1.0.0''" ?vdoc] r7 m3 e2 e3 unfolding b by blast
  show ?thesis
    using r1 enc s a1 a2 a3 r4 a4 a5 r6 e1 a6 a7 e2 e3 a8 by (intro conjI)
qed

text \<open>
  C1 as stated fails for the registry document, whose \<^verbatim>\<open>self\<close> is the base URL without the
  \<^verbatim>\<open>/\<close> of its \<^verbatim>\<open>xid\<close>, and for the entry of the scoped package \<^verbatim>\<open>@scope/pkg\<close> in the
  packages collection, whose \<^verbatim>\<open>self\<close> carries the encoded name
  \<^verbatim>\<open>%40scope%2Fpkg\<close> while its \<^verbatim>\<open>xid\<close> carries the name as it is.
\<close>

theorem C1_counterexample:
  "get_prop (body (root_handler demo_env demo_request)) ''self'' = Some (JStr ''http://localhost:3100'')
   \<and> get_prop (body (root_handler demo_env demo_request)) ''xid'' = Some (JStr ''/'')
   \<and> \<not> self_is_base_xid (baseUrl demo_request) (body (root_handler demo_env demo_request))
   \<and> get_prop (the (map_of (members (body (fst (packages_handler demo_env demo_state ''npmjs.org''
                  (demo_request\<lparr>q_sort := Some ''name=asc''\<rparr>))))) ''@scope/pkg'')) ''self''
     = Some (JStr ''http://localhost:3100/noderegistries/npmjs.org/packages/%40scope%2Fpkg'')
   \<and> get_prop (the (map_of (members (body (fst (packages_handler demo_env demo_state ''npmjs.org''
                  (demo_request\<lparr>q_sort := Some ''name=asc''\<rparr>))))) ''@scope/pkg'')) ''xid''
     = Some (JStr ''/noderegistries/npmjs.org/packages/@scope/pkg'')
   \<and> \<not> self_is_base_xid (baseUrl demo_request)
        (the (map_of (members (body (fst (packages_handler demo_env demo_state ''npmjs.org''
                  (demo_request\<lparr>q_sort := Some ''name=asc''\<rparr>))))) ''@scope/pkg''))"
  by code_simp

end
